theory Spec2Isabelle
  imports Complex_Main "HOL-Library.Sublist" "HOL-Library.Char_ord" "HOL-Library.List_Lexorder"
    "HOL-Library.AList" "HOL-Library.Word" "HOL-Library.Multiset"
begin

section \<open>Python values and library calls used by stitch.py\<close>

text \<open>
  The exceptions that the modelled functions of \<^verbatim>\<open>sparcstools/stitch.py\<close> can end with.
  \<^verbatim>\<open>sys.exit(msg)\<close> raises \<^verbatim>\<open>SystemExit\<close> carrying the message.
\<close>

datatype py_error =
    ValueError
  | AttributeError
  | KeyError
  | IndexError
  | ZeroDivisionError
  | FileNotFoundError
  | NotADirectoryError
  | FileExistsError
  | SystemExit string

text \<open>\<^verbatim>\<open>xs.index(x)\<close>: position of the first occurrence, \<^verbatim>\<open>ValueError\<close> when absent.\<close>

fun list_index :: "'a list \<Rightarrow> 'a \<Rightarrow> py_error + nat" where
  "list_index [] x = Inl ValueError"
| "list_index (y # ys) x =
     (if y = x then Inr 0
      else (case list_index ys x of Inl e \<Rightarrow> Inl e | Inr n \<Rightarrow> Inr (Suc n)))"

text \<open>\<^verbatim>\<open>str(n)\<close> for an integer: decimal digits, a leading minus sign for negatives.\<close>

definition digit_char :: "nat \<Rightarrow> char" where
  "digit_char d = char_of (48 + d)"

fun str_nat :: "nat \<Rightarrow> string" where
  "str_nat n = (if n < 10 then [digit_char n] else str_nat (n div 10) @ [digit_char (n mod 10)])"

declare str_nat.simps [simp del]

definition str_int :: "int \<Rightarrow> string" where
  "str_int i = (if i < 0 then CHR ''-'' # str_nat (nat (- i)) else str_nat (nat i))"

text \<open>\<^verbatim>\<open>os.path.join(a, b)\<close> on a POSIX system, for two components.\<close>

definition os_path_join :: "string \<Rightarrow> string \<Rightarrow> string" where
  "os_path_join a b =
     (if b \<noteq> [] \<and> hd b = CHR ''/'' then b
      else if a = [] \<or> last a = CHR ''/'' then a @ b
      else a @ ''/'' @ b)"

text \<open>\<^verbatim>\<open>enumerate(xs)\<close>: the elements paired with their positions from 0.\<close>

definition enumerate_py :: "'a list \<Rightarrow> (nat \<times> 'a) list" where
  "enumerate_py xs = zip [0..<length xs] xs"

section \<open>The BIAS import sidecar: \<^verbatim>\<open>_write_xml\<close>\<close>

text \<open>
  The document is built with yattag's \<^verbatim>\<open>Doc().tagtext()\<close>: \<^verbatim>\<open>doc.asis\<close> appends raw text,
  a \<^verbatim>\<open>with tag(name, **attrs)\<close> block is an element whose children are what the block
  emits, and \<^verbatim>\<open>text(s)\<close> is a text node. yattag and its \<^verbatim>\<open>indent\<close> function are an
  external library; the written file is represented by the document tree together with
  the two layout arguments that \<^verbatim>\<open>_write_xml\<close> hands to \<^verbatim>\<open>indent\<close>.
\<close>

datatype xml =
    Asis string
  | Text string
  | Elem string "(string \<times> string) list" "xml list"

record xml_file =
  document :: "xml list"
  indentation :: string
  newline :: string

definition xml_header :: string where
  "xml_header = ''<?xml version=\"1.0\" encoding=\"UTF-8\"?>''"

definition image_paths :: "string list \<Rightarrow> string \<Rightarrow> bool \<Rightarrow> string list" where
  "image_paths channels slidename cropped =
     (if cropped then map (\<lambda>x. slidename @ ''_'' @ x @ ''_cropped.tif'') channels
      else map (\<lambda>x. slidename @ ''_'' @ x @ ''.tif'') channels)"

definition xml_doc :: "string list \<Rightarrow> string \<Rightarrow> bool \<Rightarrow> xml list" where
  "xml_doc channels slidename cropped =
     [Asis xml_header,
      Elem ''BIAS'' [(''version'', ''1.0'')]
        [Elem ''channels'' []
           (map (\<lambda>(i, channel).
                   Elem ''channel'' [(''id'', str_nat (i + 1))] [Elem ''name'' [] [Text channel]])
              (enumerate_py channels)),
         Elem ''images'' []
           (map (\<lambda>(i, image_path).
                   Elem ''image'' [(''url'', image_path)]
                     [Elem ''channel'' [] [Text (str_nat (i + 1))]])
              (enumerate_py (image_paths channels slidename cropped)))]]"

text \<open>
  \<^verbatim>\<open>_write_xml(path, channels, slidename, cropped)\<close>: the path written and its content.
  Indentation is \<^verbatim>\<open>' '*4\<close>, the newline is \<^verbatim>\<open>'\r\n'\<close>.
\<close>

definition write_xml :: "string \<Rightarrow> string list \<Rightarrow> string \<Rightarrow> bool \<Rightarrow> string \<times> xml_file" where
  "write_xml path channels slidename cropped =
     (os_path_join path (slidename @ ''.XML''),
      \<lparr> document = xml_doc channels slidename cropped,
        indentation = replicate 4 CHR '' '',
        newline = [CHR 0x0D, CHR 0x0A] \<rparr>)"

section \<open>Stitching: \<^verbatim>\<open>generate_stitched\<close>\<close>

subsection \<open>Arguments, reader, external components, mutable state\<close>

text \<open>
  \<^verbatim>\<open>do_intensity_rescale\<close> is a boolean or one of the strings \<^verbatim>\<open>"partial"\<close>,
  \<^verbatim>\<open>"full_image"\<close>; \<^verbatim>\<open>rescale_range\<close> is a percentile pair or a dictionary of pairs.
\<close>

datatype pyval = PBool bool | PStr string

datatype 'k rescale_range =
    RangeTuple "real \<times> real"
  | RangeDict "('k \<times> (real \<times> real)) list"

text \<open>
  The keyword arguments of \<^verbatim>\<open>generate_stitched\<close>. \<^verbatim>\<open>crop\<close> is a dictionary from side name
  to a number of thumbnail pixels, an integer or a float. \<^verbatim>\<open>overlap\<close>, \<^verbatim>\<open>max_shift\<close> and \<^verbatim>\<open>filter_sigma\<close>
  are only forwarded to the external reader and aligner and are left out.
\<close>

record stitch_args =
  slidename :: string
  outdir :: string
  stitching_channel :: string
  crop :: "(string \<times> real) list"
  plot_QC :: bool
  filetype :: "string list"
  WGAchannel :: "string option"
  do_intensity_rescale :: pyval
  rescale_range :: "string rescale_range"
  no_rescale_channel :: "string list option"
  export_XML :: bool
  return_tile_positions :: bool
  channel_order :: "string list option"

text \<open>
  The attributes of the \<^verbatim>\<open>FilePatternReaderRescale\<close> object that \<^verbatim>\<open>generate_stitched\<close>
  sets. \<^verbatim>\<open>no_rescale_channel\<close> is \<open>None\<close> while the attribute has not been assigned.
\<close>

record reader =
  slide_rescale_range :: "nat rescale_range"
  slide_do_rescale :: pyval
  slide_WGAchannel :: "string option"
  slide_no_rescale_channel :: "nat list option"

type_synonym pixel = "16 word"
type_synonym plane = "pixel list list"

text \<open>
  What the external components deliver for one run: the channel map that the reader's
  metadata reads from the input directory (a dictionary from channel index to channel
  name, in insertion order), the result of ashlar's aligner (mosaic shape as
  (rows, columns) and tile positions), the pixel that \<^verbatim>\<open>mosaic.assemble_channel\<close> puts at
  a row and column of a channel, the pixelwise transfer function of the percentile
  rescale of a whole plane, the temporary directory that alphabase's \<^verbatim>\<open>tempmmap\<close>
  creates, and the chunk files that ome-zarr's \<^verbatim>\<open>write_image\<close> stores for an array.
\<close>

record extern =
  abspath :: "string \<Rightarrow> string"
  channel_map :: "(nat \<times> string) list"
  mosaic_shape :: "nat \<times> nat"
  positions :: "(real \<times> real) list"
  assemble_channel :: "nat \<Rightarrow> nat \<Rightarrow> nat \<Rightarrow> pixel"
  rescale_px :: "real \<times> real \<Rightarrow> plane \<Rightarrow> pixel \<Rightarrow> pixel"
  temp_location :: "string \<Rightarrow> string"
  write_image :: "plane list \<Rightarrow> (string \<times> pixel list) list"

text \<open>
  Files. A flat TIFF holds one plane, the position table one row per tile, the
  pyramidal OME-TIFF is written by ashlar's \<^verbatim>\<open>PyramidWriter\<close> from the mosaic's channels.
  A thumbnail is made from one channel, an example tile is the rescaled copy of an input
  file, a script is text, and the parameter table has, under its header line, one row per
  job (index, pattern, slide name, path).
  An OME-Zarr output is a directory: the group attribute \<^verbatim>\<open>omero\<close> (name and, per channel,
  label, colour and active flag) and the chunk files of the image.
\<close>

datatype zarr_value =
    Omero string "(string \<times> string \<times> bool) list"
  | Chunk "pixel list"

datatype content =
    Tiff plane
  | Sidecar xml_file
  | PositionTable "(real \<times> real) list"
  | PyramidTiff "nat list"
  | Thumbnail nat
  | Example string
  | Script string
  | ParamTable "(nat \<times> string \<times> string \<times> string) list"

text \<open>
  Calls into external components, in the order they are made. \<open>Align slide c\<close> is
  \<^verbatim>\<open>reg.EdgeAligner(slide, channel=c, ...).run()\<close> with the reader as configured at that
  moment; \<open>ImSave d n c\<close> is \<^verbatim>\<open>im.save(os.path.join(d, n))\<close> for an image \<^verbatim>\<open>im\<close> with the content \<open>c\<close>. The two QC plotting functions
  come from \<^verbatim>\<open>sparcstools._custom_ashlar_funcs\<close> and receive the aligner and the output
  directory.
\<close>

datatype event =
    AxisFlip
  | Align reader nat
  | PlotEdgeScatter string
  | PlotEdgeQuality string
  | AssembleChannel nat
  | RescaleFullImage nat "real \<times> real"
  | ImSave string string content
  | RemoveTemp string
  | MakeThumbnail nat
  | MakeDirs string
  | TiffImsave string string

datatype node = File content | Dir "(string \<times> zarr_value) list"

record world =
  files :: "string \<rightharpoonup> node"
  calls :: "event list"
  TEMP_DIR_NAME :: "string option"

definition emit :: "event \<Rightarrow> world \<Rightarrow> world" where
  "emit e w = w\<lparr>calls := calls w @ [e]\<rparr>"

definition write_file :: "string \<Rightarrow> content \<Rightarrow> world \<Rightarrow> world" where
  "write_file p c w = w\<lparr>files := (files w)(p \<mapsto> File c)\<rparr>"

subsection \<open>Channel lookups\<close>

text \<open>\<^verbatim>\<open>list(slide.metadata.channel_map.values())\<close> and \<^verbatim>\<open>list(....keys())\<close>.\<close>

definition channel_names :: "extern \<Rightarrow> string list" where
  "channel_names ext = map snd (channel_map ext)"

definition channel_keys :: "extern \<Rightarrow> nat list" where
  "channel_keys ext = map fst (channel_map ext)"

text \<open>
  \<^verbatim>\<open>{list(channel_map.values()).index(k): v for k, v in rescale_range.items()}\<close>: a later
  item with the same index replaces the value of an earlier one.
\<close>

fun rescale_range_ids :: "string list \<Rightarrow> (string \<times> (real \<times> real)) list
    \<Rightarrow> (nat \<times> (real \<times> real)) list \<Rightarrow> py_error + (nat \<times> (real \<times> real)) list" where
  "rescale_range_ids vals [] acc = Inr acc"
| "rescale_range_ids vals ((k, v) # items) acc =
     (case list_index vals k of
        Inl e \<Rightarrow> Inl e
      | Inr i \<Rightarrow> rescale_range_ids vals items (AList.update i v acc))"

definition resolve_rescale_range :: "string list \<Rightarrow> string rescale_range
    \<Rightarrow> py_error + nat rescale_range" where
  "resolve_rescale_range vals rr =
     (case rr of
        RangeTuple t \<Rightarrow> Inr (RangeTuple t)
      | RangeDict items \<Rightarrow>
          (case rescale_range_ids vals items [] of
             Inl e \<Rightarrow> Inl e
           | Inr ids \<Rightarrow> Inr (RangeDict ids)))"

text \<open>
  \<^verbatim>\<open>slide.metadata.channel_map.values().index(_channel)\<close>: the receiver is the
  \<^verbatim>\<open>dict_values\<close> view itself, which has no \<^verbatim>\<open>index\<close> method, so the attribute lookup
  raises before any comparison is made.
\<close>

definition dict_values_index :: "string list \<Rightarrow> string \<Rightarrow> py_error + nat" where
  "dict_values_index vals c = Inl AttributeError"

fun no_rescale_channel_id :: "string list \<Rightarrow> string list \<Rightarrow> py_error + nat list" where
  "no_rescale_channel_id vals [] = Inr []"
| "no_rescale_channel_id vals (c # cs) =
     (case dict_values_index vals c of
        Inl e \<Rightarrow> Inl e
      | Inr i \<Rightarrow>
          (case no_rescale_channel_id vals cs of
             Inl e \<Rightarrow> Inl e
           | Inr ids \<Rightarrow> Inr (i # ids)))"

definition partial_exit_message :: string where
  "partial_exit_message =
     ''do_intensity_rescale set to partial but not channel passed for which no rescaling should be done.''"

text \<open>The block \<^verbatim>\<open>if do_intensity_rescale == "partial": ...\<close>.\<close>

definition set_no_rescale :: "string list \<Rightarrow> stitch_args \<Rightarrow> reader \<Rightarrow> py_error + reader" where
  "set_no_rescale vals args slide =
     (if do_intensity_rescale args = PStr ''partial'' then
        (case no_rescale_channel args of
           Some cs \<Rightarrow>
             (case no_rescale_channel_id vals cs of
                Inl e \<Rightarrow> Inl e
              | Inr ids \<Rightarrow> Inr (slide\<lparr>slide_no_rescale_channel := Some ids\<rparr>))
         | None \<Rightarrow> Inl (SystemExit partial_exit_message))
      else Inr slide)"

text \<open>The channel reorder: \<^verbatim>\<open>_channels\<close> from \<^verbatim>\<open>channel_order\<close>.\<close>

fun order_ids :: "string list \<Rightarrow> string list \<Rightarrow> py_error + nat list" where
  "order_ids vals [] = Inr []"
| "order_ids vals (c # cs) =
     (case list_index vals c of
        Inl e \<Rightarrow> Inl e
      | Inr i \<Rightarrow>
          (case order_ids vals cs of
             Inl e \<Rightarrow> Inl e
           | Inr ids \<Rightarrow> Inr (i # ids)))"

definition select_channels :: "extern \<Rightarrow> stitch_args \<Rightarrow> py_error + nat list" where
  "select_channels ext args =
     (case channel_order args of
        None \<Rightarrow> Inr (channel_keys ext)
      | Some order \<Rightarrow> order_ids (channel_names ext) order)"

subsection \<open>\<^verbatim>\<open>_assemble_mosaic\<close>\<close>

text \<open>Python slicing \<^verbatim>\<open>xs[start:stop]\<close>: a negative bound counts from the end, both are clipped.\<close>

definition slice_bound :: "int \<Rightarrow> nat \<Rightarrow> nat" where
  "slice_bound i n = (if i < 0 then nat (max 0 (i + int n)) else min (nat i) n)"

definition py_slice :: "int \<Rightarrow> int \<Rightarrow> 'a list \<Rightarrow> 'a list" where
  "py_slice start stop xs =
     (let a = slice_bound start (length xs); b = slice_bound stop (length xs)
      in take (b - a) (drop a xs))"

text \<open>\<^verbatim>\<open>d[k]\<close> on a dictionary.\<close>

definition dict_get :: "('k \<times> 'v) list \<Rightarrow> 'k \<Rightarrow> py_error + 'v" where
  "dict_get d k = (case map_of d k of None \<Rightarrow> Inl KeyError | Some v \<Rightarrow> Inr v)"

text \<open>\<^verbatim>\<open>np.sum(list(crop.values()))\<close>.\<close>

definition crop_sum :: "(string \<times> real) list \<Rightarrow> real" where
  "crop_sum c = sum_list (map snd c)"

text \<open>The plane that \<^verbatim>\<open>mosaic.assemble_channel(channel)\<close> returns: it has the mosaic's shape.\<close>

definition assembled_plane :: "extern \<Rightarrow> nat \<Rightarrow> plane" where
  "assembled_plane ext channel =
     map (\<lambda>r. map (\<lambda>c. assemble_channel ext channel r c) [0..<snd (mosaic_shape ext)])
       [0..<fst (mosaic_shape ext)]"

text \<open>
  One pass of the loop \<^verbatim>\<open>for i, channel in enumerate(_channels)\<close>. The right-hand side
  \<^verbatim>\<open>mosaic.assemble_channel\<close> is evaluated before the assignment to \<^verbatim>\<open>mosaics[i, :, :]\<close>,
  which raises \<^verbatim>\<open>IndexError\<close> for an index beyond the first axis.
\<close>

fun assemble_loop :: "extern \<Rightarrow> pyval \<Rightarrow> nat rescale_range \<Rightarrow> (nat \<times> nat) list
    \<Rightarrow> plane list \<Rightarrow> world \<Rightarrow> (py_error + plane list) \<times> world" where
  "assemble_loop ext dir rr [] mosaics w = (Inr mosaics, w)"
| "assemble_loop ext dir rr ((i, channel) # rest) mosaics w =
     (let w1 = emit (AssembleChannel channel) w in
      if length mosaics \<le> i then (Inl IndexError, w1)
      else
        let mosaics1 = mosaics[i := assembled_plane ext channel] in
        if dir = PStr ''full_image'' then
          (case (case rr of
                   RangeDict ids \<Rightarrow> dict_get ids channel
                 | RangeTuple t \<Rightarrow> Inr t) of
             Inl e \<Rightarrow> (Inl e, w1)
           | Inr cutoffs \<Rightarrow>
               assemble_loop ext dir rr rest
                 (mosaics1[i := map (map (rescale_px ext cutoffs (mosaics1 ! i))) (mosaics1 ! i)])
                 (emit (RescaleFullImage channel cutoffs) w1))
        else assemble_loop ext dir rr rest mosaics1 w1)"

text \<open>\<^verbatim>\<open>int(x)\<close> on a float: the fractional part is cut off, towards zero.\<close>

definition py_int :: "real \<Rightarrow> int" where
  "py_int x = (if 0 \<le> x then \<lfloor>x\<rfloor> else \<lceil>x\<rceil>)"

text \<open>
  The crop step. \<^verbatim>\<open>cropping_factor = 20.00\<close>, and each margin in full-resolution pixels is
  \<^verbatim>\<open>int(crop[side] * cropping_factor)\<close>. The product is taken exactly: the rounding of the
  floating-point multiplication is not modelled.
\<close>

definition cropping_factor :: real where
  "cropping_factor = 20"

definition crop_mosaics :: "(string \<times> real) list \<Rightarrow> nat \<times> nat \<Rightarrow> plane list
    \<Rightarrow> py_error + plane list" where
  "crop_mosaics c shape mosaics =
     (if crop_sum c > 0 then
        (case dict_get c ''top'' of
           Inl e \<Rightarrow> Inl e
         | Inr t \<Rightarrow>
            (case dict_get c ''bottom'' of
               Inl e \<Rightarrow> Inl e
             | Inr b \<Rightarrow>
                (case dict_get c ''left'' of
                   Inl e \<Rightarrow> Inl e
                 | Inr l \<Rightarrow>
                    (case dict_get c ''right'' of
                       Inl e \<Rightarrow> Inl e
                     | Inr r \<Rightarrow>
                        (let top = py_int (t * cropping_factor);
                             bottom = py_int (b * cropping_factor);
                             left = py_int (l * cropping_factor);
                             right = py_int (r * cropping_factor);
                             x = int (fst shape); y = int (snd shape)
                         in Inr (map (\<lambda>pl. map (py_slice left (y - right))
                                              (py_slice top (x - bottom) pl))
                                   mosaics))))))
      else Inr mosaics)"

text \<open>
  \<^verbatim>\<open>_assemble_mosaic(mosaic, crop)\<close>. The module global \<^verbatim>\<open>TEMP_DIR_NAME\<close> is set, the array
  \<^verbatim>\<open>mosaics\<close> is allocated with shape \<^verbatim>\<open>(n_channels, x, y)\<close>, the channels in \<^verbatim>\<open>_channels\<close>
  are assembled, then the crop is applied.
\<close>

definition assemble_mosaic :: "extern \<Rightarrow> string \<Rightarrow> stitch_args \<Rightarrow> nat rescale_range \<Rightarrow> nat list
    \<Rightarrow> world \<Rightarrow> (py_error + plane list) \<times> world" where
  "assemble_mosaic ext out args rr chans w =
     (let n_channels = length (channel_keys ext);
          x = fst (mosaic_shape ext); y = snd (mosaic_shape ext);
          w1 = w\<lparr>TEMP_DIR_NAME := Some (temp_location ext out)\<rparr>;
          mosaics = replicate n_channels (replicate x (replicate y 0))
      in case assemble_loop ext (do_intensity_rescale args) rr (enumerate_py chans) mosaics w1 of
           (Inl e, w2) \<Rightarrow> (Inl e, w2)
         | (Inr mosaics2, w2) \<Rightarrow> (crop_mosaics (crop args) (x, y) mosaics2, w2))"

subsection \<open>Exporters\<close>

text \<open>The flat TIFF exporter: one file per channel of the channel map, then the sidecar.\<close>

definition tif_name :: "string \<Rightarrow> string \<Rightarrow> bool \<Rightarrow> string" where
  "tif_name slide channel cropped =
     (if cropped then slide @ ''_'' @ channel @ ''_cropped.tif''
      else slide @ ''_'' @ channel @ ''.tif'')"

fun save_planes :: "string \<Rightarrow> string \<Rightarrow> bool \<Rightarrow> plane list \<Rightarrow> (nat \<times> string) list
    \<Rightarrow> world \<Rightarrow> world" where
  "save_planes out slide cropped merged_array [] w = w"
| "save_planes out slide cropped merged_array ((i, channel) # rest) w =
     save_planes out slide cropped merged_array rest
       (write_file (os_path_join out (tif_name slide channel cropped)) (Tiff (merged_array ! i))
          (emit (ImSave out (tif_name slide channel cropped) (Tiff (merged_array ! i))) w))"

definition export_tif :: "extern \<Rightarrow> string \<Rightarrow> stitch_args \<Rightarrow> plane list \<Rightarrow> world \<Rightarrow> world" where
  "export_tif ext out args merged_array w =
     (let cropped = (crop_sum (crop args) > 0);
          w1 = save_planes out (slidename args) cropped merged_array
                 (enumerate_py (channel_names ext)) w
      in if export_XML args then
           (case write_xml out (channel_names ext) (slidename args) cropped of
              (p, f) \<Rightarrow> write_file p (Sidecar f) w1)
         else w1)"

text \<open>The pyramidal exporter works from the mosaic object, not from the assembled array.\<close>

definition export_ome_tif :: "extern \<Rightarrow> string \<Rightarrow> stitch_args \<Rightarrow> world \<Rightarrow> world" where
  "export_ome_tif ext out args w =
     write_file (os_path_join out (slidename args @ ''.ome.tiff'')) (PyramidTiff (channel_keys ext)) w"

text \<open>
  The OME-Zarr exporter. An existing directory at the target is removed with
  \<^verbatim>\<open>shutil.rmtree\<close>. A directory store keeps the entries it already has and replaces those
  written again; opening a store where a regular file sits fails.
\<close>

definition channel_colors :: "string list" where
  "channel_colors = [''#e60049'', ''#0bb4ff'', ''#50e991'', ''#e6d800'', ''#9b19f5'',
     ''#ffa300'', ''#dc0ab4'', ''#b3d4ff'', ''#00bfa0'']"

text \<open>
  \<^verbatim>\<open>while len(values) > len(channel_colors): channel_colors = channel_colors + channel_colors\<close>.
  The palette literal is not empty; the test \<open>cs \<noteq> []\<close> only makes the recursion total.
\<close>

function extend_colors :: "nat \<Rightarrow> string list \<Rightarrow> string list" where
  "extend_colors n cs = (if n > length cs \<and> cs \<noteq> [] then extend_colors n (cs @ cs) else cs)"
  by pat_completeness auto
termination
  by (relation "measure (\<lambda>(n, cs). n - length cs)") (auto simp: neq_Nil_conv)

declare extend_colors.simps [simp del]

definition omero_channels :: "string list \<Rightarrow> (string \<times> string \<times> bool) list" where
  "omero_channels vals =
     map (\<lambda>(i, channel). (channel, extend_colors (length vals) channel_colors ! i, True))
       (enumerate_py vals)"

fun store_put :: "(string \<times> zarr_value) list \<Rightarrow> (string \<times> zarr_value) list
    \<Rightarrow> (string \<times> zarr_value) list" where
  "store_put [] store = store"
| "store_put ((k, v) # kvs) store = store_put kvs (AList.update k v store)"

definition open_store :: "node option \<Rightarrow> py_error + (string \<times> zarr_value) list" where
  "open_store n =
     (case n of
        None \<Rightarrow> Inr []
      | Some (Dir entries) \<Rightarrow> Inr entries
      | Some (File c) \<Rightarrow> Inl NotADirectoryError)"

text \<open>
  The target directory \<^verbatim>\<open>os.path.join(outdir, slidename + ".ome.zarr")\<close> and what one export
  puts into the store: the \<^verbatim>\<open>omero\<close> attribute of the group, then the chunks of \<^verbatim>\<open>write_image\<close>.
\<close>

definition zarr_path :: "string \<Rightarrow> stitch_args \<Rightarrow> string" where
  "zarr_path out args = os_path_join out (slidename args @ ''.ome.zarr'')"

definition zarr_items :: "extern \<Rightarrow> stitch_args \<Rightarrow> plane list \<Rightarrow> (string \<times> zarr_value) list" where
  "zarr_items ext args merged_array =
     (''omero'', Omero (slidename args @ ''.ome.zarr'') (omero_channels (channel_names ext)))
       # map (\<lambda>(k, v). (k, Chunk v)) (write_image ext merged_array)"

definition export_ome_zarr :: "extern \<Rightarrow> string \<Rightarrow> stitch_args \<Rightarrow> plane list \<Rightarrow> world
    \<Rightarrow> (py_error + unit) \<times> world" where
  "export_ome_zarr ext out args merged_array w =
     (let path = zarr_path out args;
          w1 = (case files w path of
                  Some (Dir entries) \<Rightarrow> w\<lparr>files := (files w)(path := None)\<rparr>
                | _ \<Rightarrow> w)
      in case open_store (files w1 path) of
           Inl e \<Rightarrow> (Inl e, w1)
         | Inr store \<Rightarrow>
             (Inr (),
              w1\<lparr>files := (files w1)(path \<mapsto>
                    Dir (store_put (zarr_items ext args merged_array) store))\<rparr>))"

subsection \<open>The run\<close>

text \<open>
  The end of \<^verbatim>\<open>generate_stitched\<close>: when the module global \<^verbatim>\<open>TEMP_DIR_NAME\<close> exists, the
  temporary directory is removed and the global deleted.
\<close>

definition cleanup :: "world \<Rightarrow> world" where
  "cleanup w =
     (case TEMP_DIR_NAME w of
        None \<Rightarrow> w
      | Some d \<Rightarrow> emit (RemoveTemp d) (w\<lparr>TEMP_DIR_NAME := None\<rparr>))"

text \<open>
  From \<^verbatim>\<open>#output tile positions if required\<close> to the end: the position table, then the
  \<^verbatim>\<open>if\<close>/\<^verbatim>\<open>elif\<close> chain over \<^verbatim>\<open>filetype\<close>, then the clean-up. The \<^verbatim>\<open>"return_array"\<close> branch
  returns the array and the channel names from inside the chain.
\<close>

definition export_results :: "extern \<Rightarrow> string \<Rightarrow> stitch_args \<Rightarrow> nat rescale_range \<Rightarrow> nat list
    \<Rightarrow> world \<Rightarrow> (py_error + (plane list \<times> string list) option) \<times> world" where
  "export_results ext out args rr chans w =
     (let w1 = (if ''return_array'' \<in> set (filetype args) then w
                else if return_tile_positions args then
                  write_file (os_path_join out (slidename args @ ''_tile_positions.tsv''))
                    (PositionTable (positions ext)) w
                else w)
      in if ''return_array'' \<in> set (filetype args) then
           (case assemble_mosaic ext out args rr chans w1 of
              (Inl e, w2) \<Rightarrow> (Inl e, w2)
            | (Inr merged_array, w2) \<Rightarrow> (Inr (Some (merged_array, channel_names ext)), w2))
         else if ''.tif'' \<in> set (filetype args) then
           (case assemble_mosaic ext out args rr chans w1 of
              (Inl e, w2) \<Rightarrow> (Inl e, w2)
            | (Inr merged_array, w2) \<Rightarrow>
                (Inr None, cleanup (export_tif ext out args merged_array w2)))
         else if ''ome.tif'' \<in> set (filetype args) then
           (Inr None, cleanup (export_ome_tif ext out args w1))
         else if ''ome.zarr'' \<in> set (filetype args) then
           (case assemble_mosaic ext out args rr chans w1 of
              (Inl e, w2) \<Rightarrow> (Inl e, w2)
            | (Inr merged_array, w2) \<Rightarrow>
                (case export_ome_zarr ext out args merged_array w2 of
                   (Inl e, w3) \<Rightarrow> (Inl e, w3)
                 | (Inr u, w3) \<Rightarrow> (Inr None, cleanup w3)))
         else (Inr None, cleanup w1))"

text \<open>
  \<^verbatim>\<open>generate_stitched\<close>. The result is the raised exception or the returned value
  (\<open>None\<close>, or the array with the channel names), together with the state reached.
\<close>

definition generate_stitched :: "extern \<Rightarrow> stitch_args \<Rightarrow> world
    \<Rightarrow> (py_error + (plane list \<times> string list) option) \<times> world" where
  "generate_stitched ext args w =
     (let out = abspath ext (outdir args); vals = channel_names ext
      in case resolve_rescale_range vals (rescale_range args) of
           Inl e \<Rightarrow> (Inl e, w)
         | Inr rr \<Rightarrow>
             (case set_no_rescale vals args
                     \<lparr> slide_rescale_range = rr,
                       slide_do_rescale = do_intensity_rescale args,
                       slide_WGAchannel = WGAchannel args,
                       slide_no_rescale_channel = None \<rparr> of
                Inl e \<Rightarrow> (Inl e, w)
              | Inr slide \<Rightarrow>
                  (let w1 = emit AxisFlip w
                   in case list_index vals (stitching_channel args) of
                        Inl e \<Rightarrow> (Inl e, w1)
                      | Inr channel_id \<Rightarrow>
                          (let w2 = emit (Align slide channel_id) w1;
                               w3 = (if plot_QC args then
                                       emit (PlotEdgeQuality out) (emit (PlotEdgeScatter out) w2)
                                     else w2)
                           in case select_channels ext args of
                                Inl e \<Rightarrow> (Inl e, w3)
                              | Inr chans \<Rightarrow> export_results ext out args rr chans w3))))"

section \<open>Thumbnails: \<^verbatim>\<open>generate_thumbnail\<close>\<close>

text \<open>\<^verbatim>\<open>sub in s\<close> on strings.\<close>

fun py_in :: "string \<Rightarrow> string \<Rightarrow> bool" where
  "py_in sub [] = (sub = [])"
| "py_in sub (c # cs) = (prefix sub (c # cs) \<or> py_in sub cs)"

text \<open>
  \<^verbatim>\<open>s.replace(old, new)\<close>: the occurrences of \<^verbatim>\<open>old\<close> are replaced from left to right without
  overlap; an empty \<^verbatim>\<open>old\<close> puts \<^verbatim>\<open>new\<close> before every character and at the end.
\<close>

function replace_scan :: "string \<Rightarrow> string \<Rightarrow> string \<Rightarrow> string" where
  "replace_scan old new s =
     (if s = [] then []
      else if old \<noteq> [] \<and> prefix old s then new @ replace_scan old new (drop (length old) s)
      else hd s # replace_scan old new (tl s))"
  by pat_completeness auto
termination
  by (relation "measure (\<lambda>(old, new, s). length s)") (auto simp: neq_Nil_conv)

declare replace_scan.simps [simp del]

definition py_replace :: "string \<Rightarrow> string \<Rightarrow> string \<Rightarrow> string" where
  "py_replace s old new =
     (if old = [] then new @ concat (map (\<lambda>c. c # new) s) else replace_scan old new s)"

text \<open>
  \<^verbatim>\<open>random.sample(population, k)\<close>: \<^verbatim>\<open>ValueError\<close> when the sample is larger than the
  population, otherwise \<^verbatim>\<open>k\<close> draws without replacement. The random source is the function
  \<open>rnd\<close>: its value at \<open>j\<close> decides the \<open>j\<close>-th draw.
\<close>

fun draw :: "(nat \<Rightarrow> nat) \<Rightarrow> nat \<Rightarrow> 'a list \<Rightarrow> nat \<Rightarrow> 'a list" where
  "draw rnd j pool 0 = []"
| "draw rnd j pool (Suc k) =
     (if pool = [] then []
      else (let i = rnd j mod length pool
            in pool ! i # draw rnd (Suc j) (take i pool @ drop (Suc i) pool) k))"

definition random_sample :: "(nat \<Rightarrow> nat) \<Rightarrow> 'a list \<Rightarrow> nat \<Rightarrow> py_error + 'a list" where
  "random_sample rnd population k =
     (if length population < k then Inl ValueError else Inr (draw rnd 0 population k))"

record thumb_args =
  thumb_input_dir :: string
  thumb_pattern :: string
  thumb_outdir :: string
  thumb_name :: string
  thumb_stitching_channel :: string
  thumb_export_examples :: bool

text \<open>\<^verbatim>\<open>_files\<close> before sampling: the entries of the input directory that contain the first
  ten characters of the pattern and the name of the reference channel.\<close>

definition reference_files :: "string list \<Rightarrow> thumb_args \<Rightarrow> string list" where
  "reference_files listing args =
     filter (\<lambda>x. py_in (thumb_stitching_channel args) x)
       (filter (\<lambda>x. py_in (take 10 (thumb_pattern args)) x) listing)"

text \<open>
  The inner loop \<^verbatim>\<open>for file in _files\<close> for one channel. \<^verbatim>\<open>Image.open\<close> raises
  \<^verbatim>\<open>FileNotFoundError\<close> when the input directory has no entry of that name.
\<close>

fun export_example_files :: "string list \<Rightarrow> thumb_args \<Rightarrow> string \<Rightarrow> string \<Rightarrow> string list \<Rightarrow> world
    \<Rightarrow> (py_error + unit) \<times> world" where
  "export_example_files listing args outdir_examples channel [] w = (Inr (), w)"
| "export_example_files listing args outdir_examples channel (file # rest) w =
     (let file' = py_replace file (thumb_stitching_channel args) channel
      in if file' \<notin> set listing then (Inl FileNotFoundError, w)
         else export_example_files listing args outdir_examples channel rest
                (write_file (os_path_join outdir_examples file')
                   (Example (os_path_join (thumb_input_dir args) file'))
                   (emit (TiffImsave outdir_examples file') w)))"

fun export_example_channels :: "string list \<Rightarrow> thumb_args \<Rightarrow> string \<Rightarrow> string list \<Rightarrow> string list
    \<Rightarrow> world \<Rightarrow> (py_error + unit) \<times> world" where
  "export_example_channels listing args outdir_examples [] sampled w = (Inr (), w)"
| "export_example_channels listing args outdir_examples (channel # rest) sampled w =
     (case export_example_files listing args outdir_examples channel sampled w of
        (Inl e, w1) \<Rightarrow> (Inl e, w1)
      | (Inr u, w1) \<Rightarrow> export_example_channels listing args outdir_examples rest sampled w1)"

text \<open>
  \<^verbatim>\<open>generate_thumbnail\<close>; \<open>listing\<close> is \<^verbatim>\<open>os.listdir(input_dir)\<close>. The reader options
  \<^verbatim>\<open>overlap\<close>, \<^verbatim>\<open>do_intensity_rescale\<close>, \<^verbatim>\<open>rescale_range\<close> and \<^verbatim>\<open>scale\<close> are only forwarded to the
  external reader and thumbnail maker.
\<close>

definition generate_thumbnail :: "extern \<Rightarrow> string list \<Rightarrow> (nat \<Rightarrow> nat) \<Rightarrow> thumb_args \<Rightarrow> world
    \<Rightarrow> (py_error + unit) \<times> world" where
  "generate_thumbnail ext listing rnd args w =
     (let w1 = emit AxisFlip w
      in case list_index (channel_names ext) (thumb_stitching_channel args) of
           Inl e \<Rightarrow> (Inl e, w1)
         | Inr channel_id \<Rightarrow>
             (let tname = thumb_name args @ ''_thumbnail_'' @ thumb_stitching_channel args @ ''.tif'';
                  w2 = write_file (os_path_join (thumb_outdir args) tname) (Thumbnail channel_id)
                         (emit (ImSave (thumb_outdir args) tname (Thumbnail channel_id))
                            (emit (MakeThumbnail channel_id) w1))
              in if thumb_export_examples args then
                   (let outdir_examples = os_path_join (thumb_outdir args) ''example_images'';
                        w3 = (if files w2 outdir_examples = None then
                                emit (MakeDirs outdir_examples)
                                  (w2\<lparr>files := (files w2)(outdir_examples \<mapsto> Dir [])\<rparr>)
                              else w2)
                    in case random_sample rnd (reference_files listing args) 10 of
                         Inl e \<Rightarrow> (Inl e, w3)
                       | Inr sampled \<Rightarrow>
                           export_example_channels listing args outdir_examples (channel_names ext)
                             sampled w3)
                 else (Inr (), w2)))"

section \<open>Batch jobs: \<^verbatim>\<open>prepare_stitch_slurm_job\<close>\<close>

text \<open>
  The two regular expressions used are made of literal characters, the wildcard \<^verbatim>\<open>.\<close>
  (any character but a newline) and a leading anchor \<^verbatim>\<open>^\<close>. \<^verbatim>\<open>re.search\<close> returns the leftmost
  match, here its text, or \<open>None\<close>.
\<close>

fun match_here :: "string \<Rightarrow> string \<Rightarrow> bool" where
  "match_here [] s = True"
| "match_here (p # ps) [] = False"
| "match_here (p # ps) (c # cs) =
     ((if p = CHR ''.'' then c \<noteq> CHR 0x0A else c = p) \<and> match_here ps cs)"

fun search_from :: "string \<Rightarrow> string \<Rightarrow> string option" where
  "search_from pat [] = (if pat = [] then Some [] else None)"
| "search_from pat (c # cs) =
     (if match_here pat (c # cs) then Some (take (length pat) (c # cs)) else search_from pat cs)"

definition re_search :: "string \<Rightarrow> string \<Rightarrow> string option" where
  "re_search pat s =
     (case pat of
        p # ps \<Rightarrow>
          (if p = CHR ''^'' then (if match_here ps s then Some (take (length ps) s) else None)
           else search_from pat s)
      | [] \<Rightarrow> Some [])"

text \<open>\<^verbatim>\<open>[re.search(pat, x).group() for x in xs]\<close>: \<^verbatim>\<open>AttributeError\<close> at the first entry without a match.\<close>

fun search_all :: "string \<Rightarrow> string list \<Rightarrow> py_error + string list" where
  "search_all pat [] = Inr []"
| "search_all pat (x # xs) =
     (case re_search pat x of
        None \<Rightarrow> Inl AttributeError
      | Some m \<Rightarrow> (case search_all pat xs of Inl e \<Rightarrow> Inl e | Inr ms \<Rightarrow> Inr (m # ms)))"

text \<open>\<^verbatim>\<open>np.unique\<close>: the distinct values in ascending order.\<close>

definition np_unique :: "string list \<Rightarrow> string list" where
  "np_unique xs = sort (remdups xs)"

text \<open>\<^verbatim>\<open>s.zfill(width)\<close>: zeros are put after a leading sign.\<close>

definition zfill :: "nat \<Rightarrow> string \<Rightarrow> string" where
  "zfill width s =
     (if s \<noteq> [] \<and> (hd s = CHR ''-'' \<or> hd s = CHR ''+'')
      then hd s # replicate (width - length s) CHR ''0'' @ tl s
      else replicate (width - length s) CHR ''0'' @ s)"

definition nl :: string where
  "nl = [CHR 0x0A]"

text \<open>
  The arguments. \<^verbatim>\<open>rescale_range\<close> and \<^verbatim>\<open>overlap\<close> only appear formatted in the driver
  script; they are given as the text that the f-string produces for them. Every element
  of the list below is the text of one \<^verbatim>\<open>f.write\<close>.
\<close>

record slurm_args =
  slurm_path :: string
  slurm_stitching_channel :: string
  zstack_value :: int
  rescale_range_repr :: string
  overlap_repr :: string
  jobs_per_file :: int

definition processing_py :: "slurm_args \<Rightarrow> string \<Rightarrow> string" where
  "processing_py args outdir_path =
     concat
      [''from sparcstools.stitch import generate_stitched '' @ nl,
       ''import sys '' @ nl,
       ''import os '' @ nl,
       ''pattern = sys.argv[1] '' @ nl,
       ''slidename = sys.argv[2] '' @ nl,
       ''pattern = sys.argv[1] '' @ nl,
       ''path = sys.argv[3] '' @ nl,
       ''outdir = \"'' @ outdir_path @ ''\" '' @ nl,
       ''stitching_channel = \"'' @ slurm_stitching_channel args @ ''\" '' @ nl,
       ''zstack_value = '' @ str_int (zstack_value args) @ '' '' @ nl,
       ''rescale_range = '' @ rescale_range_repr args @ '' '' @ nl,
       ''overlap = '' @ overlap_repr args @ '' '' @ nl,
       ''generate_stitched(path, slidename, pattern, outdir, overlap, stitching_channel = stitching_channel, crop = {'' @ [CHR 0x27] @ ''top'' @ [CHR 0x27] @ '':0, '' @ [CHR 0x27] @ ''bottom'' @ [CHR 0x27] @ '':0, '' @ [CHR 0x27] @ ''left'' @ [CHR 0x27] @ '':0, '' @ [CHR 0x27] @ ''right'' @ [CHR 0x27] @ '':0}, plot_QC = False, filetype = [\".tif\"], do_intensity_rescale = True, rescale_range = rescale_range, export_XML = False, return_tile_positions = False) '' @ nl]"

text \<open>The submission script; every element of the list is the text of one \<^verbatim>\<open>f.write\<close>.\<close>

definition run_sh :: "slurm_args \<Rightarrow> string \<Rightarrow> int \<Rightarrow> string" where
  "run_sh args outdir_slurm n_jobs =
     concat
      [''#!/bin/bash -l '' @ nl,
       ''#SBATCH --job-name=stitching '' @ nl,
       ''#SBATCH -o \"./run%A-%a.out.%j\" '' @ nl,
       ''#SBATCH -e \"./run%A-%a.err.%j\" '' @ nl,
       ''#SBATCH -D ./ '' @ nl,
       ''#SBATCH --nodes=1 '' @ nl,
       ''#SBATCH --tasks-per-node=1 '' @ nl,
       ''#SBATCH --cpus-per-task=24 '' @ nl,
       ''#SBATCH --time=24:00:00 '' @ nl,
       ''#SBATCH --array=1-'' @ str_int n_jobs @ ''%20 '' @ nl @ nl,
       ''PER_TASK='' @ str_int (jobs_per_file args) @ nl,
       ''# Calculate the starting and ending values for this task based'' @ nl,
       ''# on the SLURM task and the number of runs per task.'' @ nl,
       ''START_NUM=$(( ($SLURM_ARRAY_TASK_ID - 1) * $PER_TASK + 1 ))'' @ nl,
       ''END_NUM=$(( $SLURM_ARRAY_TASK_ID * $PER_TASK ))'' @ nl,
       ''#Specify the path to the config file '' @ nl @ ''config='' @ outdir_slurm @ ''/array_inputs.csv'' @ nl @ nl,
       ''module load cuda/11.0  '' @ nl,
       ''module load jdk/8  '' @ nl,
       ''module list  '' @ nl @ '' '' @ nl,
       ''conda activate stitching  '' @ nl,
       ''echo $CONDA_DEFAULT_ENV '' @ nl @ nl,
       ''conda list '' @ nl,
       ''for (( run=$START_NUM; run<=END_NUM; run++ )); do'' @ nl,
       ''  #Extract parameters for the current $run '' @ nl,
       ''  pattern=$(awk -v ArrayTaskID=$run '' @ [CHR 0x27] @ ''$1==ArrayTaskID {print $2}'' @ [CHR 0x27] @ '' $config) '' @ nl,
       ''  slidename=$(awk -v ArrayTaskID=$run '' @ [CHR 0x27] @ ''$1==ArrayTaskID {print $3}'' @ [CHR 0x27] @ '' $config) '' @ nl,
       ''  path=$(awk -v ArrayTaskID=$run '' @ [CHR 0x27] @ ''$1==ArrayTaskID {print $4}'' @ [CHR 0x27] @ '' $config) '' @ nl @ '' '' @ nl,
       ''  echo \"calling processing script with input parameter: {$pattern} {$slidename} {$path} \"  '' @ nl,
       ''  srun python ../processing.py $pattern $slidename $path '' @ nl,
       ''done'' @ nl]"

text \<open>\<^verbatim>\<open>if not os.path.isdir(d): os.makedirs(d)\<close>.\<close>

definition ensure_dir :: "string \<Rightarrow> world \<Rightarrow> (py_error + unit) \<times> world" where
  "ensure_dir d w =
     (case files w d of
        Some (Dir entries) \<Rightarrow> (Inr (), w)
      | Some (File c) \<Rightarrow> (Inl FileExistsError, w)
      | None \<Rightarrow> (Inr (), emit (MakeDirs d) (w\<lparr>files := (files w)(d \<mapsto> Dir [])\<rparr>)))"

text \<open>The rows of \<^verbatim>\<open>to_process\<close>: for every timepoint, every well.\<close>

definition job_row :: "slurm_args \<Rightarrow> string \<Rightarrow> string \<Rightarrow> string \<Rightarrow> string \<times> string \<times> string" where
  "job_row args input_path timepoint well =
     (timepoint @ ''_'' @ well @ ''_'' @ ''{channel}_'' @ ''zstack''
        @ zfill 3 (str_int (zstack_value args)) @ ''_r{row:03}_c{col:03}.tif'',
      timepoint @ ''_'' @ well,
      input_path @ ''/'' @ well)"

definition to_process :: "slurm_args \<Rightarrow> string \<Rightarrow> string list \<Rightarrow> string list
    \<Rightarrow> (string \<times> string \<times> string) list" where
  "to_process args input_path timepoints wells =
     concat (map (\<lambda>timepoint. map (\<lambda>well. job_row args input_path timepoint well) wells)
               timepoints)"

text \<open>\<^verbatim>\<open>int(np.ceil(rows / jobs_per_file))\<close>; the division raises for a zero divisor.\<close>

definition n_jobs_of :: "nat \<Rightarrow> int \<Rightarrow> py_error + int" where
  "n_jobs_of rows per_file =
     (if per_file = 0 then Inl ZeroDivisionError else Inr (- ((- int rows) div per_file)))"

text \<open>
  The part of \<^verbatim>\<open>prepare_stitch_slurm_job\<close> after the driver script: \<open>listdir\<close> is
  \<^verbatim>\<open>os.listdir\<close> on the directory tree found. Setting three column names on a data frame made
  from an empty list raises \<^verbatim>\<open>ValueError\<close>.
\<close>

definition write_jobs :: "(string \<Rightarrow> py_error + string list) \<Rightarrow> slurm_args \<Rightarrow> string \<Rightarrow> string
    \<Rightarrow> world \<Rightarrow> (py_error + unit) \<times> world" where
  "write_jobs listdir args outdir_slurm input_path w =
     (case listdir input_path of
        Inl e \<Rightarrow> (Inl e, w)
      | Inr files0 \<Rightarrow>
         (case search_all ''Row.._Well..'' (filter (\<lambda>x. x \<noteq> ''.DS_Store'') files0) of
            Inl e \<Rightarrow> (Inl e, w)
          | Inr ws \<Rightarrow>
             (case np_unique ws of
                [] \<Rightarrow> (Inl IndexError, w)
              | well0 # wells' \<Rightarrow>
                 (case listdir (os_path_join input_path well0) of
                    Inl e \<Rightarrow> (Inl e, w)
                  | Inr files1 \<Rightarrow>
                     (case search_all ''^Timepoint...'' (filter (suffix ''.tif'') files1) of
                        Inl e \<Rightarrow> (Inl e, w)
                      | Inr ts \<Rightarrow>
                         (let rows = to_process args input_path (np_unique ts) (np_unique ws)
                          in if rows = [] then (Inl ValueError, w)
                             else
                               (let w1 = write_file (outdir_slurm @ ''/array_inputs.csv'')
                                           (ParamTable
                                              (map (\<lambda>(i, (a, b, c)). (i, a, b, c))
                                                 (enumerate_py rows))) w
                                in case n_jobs_of (length rows) (jobs_per_file args) of
                                     Inl e \<Rightarrow> (Inl e, w1)
                                   | Inr n_jobs \<Rightarrow>
                                       (Inr (),
                                        write_file (outdir_slurm @ ''/run.sh'')
                                          (Script (run_sh args outdir_slurm n_jobs)) w1))))))))"

definition prepare_stitch_slurm_job :: "(string \<Rightarrow> py_error + string list) \<Rightarrow> slurm_args \<Rightarrow> world
    \<Rightarrow> (py_error + unit) \<times> world" where
  "prepare_stitch_slurm_job listdir args w =
     (let outdir_slurm = os_path_join (os_path_join (slurm_path args) ''slurm_jobs'') ''stitch_all'';
          outdir_path = os_path_join (slurm_path args) ''stitched_wells'';
          input_path = os_path_join (slurm_path args) ''well_sorted'';
          logs_dir = os_path_join outdir_slurm ''logs''
      in case ensure_dir outdir_slurm w of
           (Inl e, w1) \<Rightarrow> (Inl e, w1)
         | (Inr u, w1) \<Rightarrow>
            (case ensure_dir outdir_path w1 of
               (Inl e, w2) \<Rightarrow> (Inl e, w2)
             | (Inr u, w2) \<Rightarrow>
                (case ensure_dir logs_dir w2 of
                   (Inl e, w3) \<Rightarrow> (Inl e, w3)
                 | (Inr u, w3) \<Rightarrow>
                     write_jobs listdir args outdir_slurm input_path
                       (write_file (outdir_slurm @ ''/processing.py'')
                          (Script (processing_py args outdir_path)) w3))))"


section \<open>Reading the sidecar document\<close>

text \<open>
  Accessors used to state what the sidecar contains: the children of the elements with
  a given tag, the (id, name) pairs of the \<^verbatim>\<open>channel\<close> elements under \<^verbatim>\<open>BIAS/channels\<close>, and
  the (url, channel id) pairs of the \<^verbatim>\<open>image\<close> elements under \<^verbatim>\<open>BIAS/images\<close>.
\<close>

fun children :: "xml \<Rightarrow> xml list" where
  "children (Elem t as cs) = cs"
| "children _ = []"

fun has_tag :: "string \<Rightarrow> xml \<Rightarrow> bool" where
  "has_tag t (Elem t' as cs) = (t = t')"
| "has_tag t _ = False"

definition under :: "string \<Rightarrow> xml list \<Rightarrow> xml list" where
  "under t xs = concat (map children (filter (has_tag t) xs))"

definition channel_entries :: "xml list \<Rightarrow> (string \<times> string) list" where
  "channel_entries doc =
     [(i, n). Elem ''channel'' [(''id'', i)] [Elem ''name'' [] [Text n]]
                \<leftarrow> under ''channels'' (under ''BIAS'' doc)]"

definition image_entries :: "xml list \<Rightarrow> (string \<times> string) list" where
  "image_entries doc =
     [(u, i). Elem ''image'' [(''url'', u)] [Elem ''channel'' [] [Text i]]
                \<leftarrow> under ''images'' (under ''BIAS'' doc)]"

section \<open>A small run\<close>

text \<open>
  A concrete run used to evaluate the functions: two channels, a mosaic of 2 rows and
  3 columns, the default arguments of \<^verbatim>\<open>generate_stitched\<close> with a slide called S1 and the
  output directory \<^verbatim>\<open>/out\<close>, and an empty file system.
\<close>

definition example_ext :: extern where
  "example_ext =
     \<lparr> abspath = (\<lambda>p. p),
       channel_map = [(0, ''Alexa488''), (1, ''DAPI'')],
       mosaic_shape = (2, 3),
       positions = [(0, 0)],
       assemble_channel = (\<lambda>c r col. of_nat (c + r + col)),
       rescale_px = (\<lambda>cut pl px. px),
       temp_location = (\<lambda>d. d @ ''/tmp0''),
       write_image = (\<lambda>a. [(''0/0.0.0'', concat (concat a))]) \<rparr>"

definition example_args :: stitch_args where
  "example_args =
     \<lparr> slidename = ''S1'',
       outdir = ''/out'',
       stitching_channel = ''Alexa488'',
       crop = [(''top'', 0), (''bottom'', 0), (''left'', 0), (''right'', 0)],
       plot_QC = True,
       filetype = [''.tif''],
       WGAchannel = None,
       do_intensity_rescale = PBool True,
       rescale_range = RangeTuple (1, 99),
       no_rescale_channel = None,
       export_XML = True,
       return_tile_positions = True,
       channel_order = None \<rparr>"

definition empty_world :: world where
  "empty_world = \<lparr> files = Map.empty, calls = [], TEMP_DIR_NAME = None \<rparr>"

text \<open>The same run with a writer that stores a second chunk file.\<close>

definition stale_ext :: extern where
  "stale_ext = example_ext\<lparr>write_image := (\<lambda>a. [(''0/0.0.0'', concat (concat a)), (''0/0.0.1'', [5])])\<rparr>"

text \<open>The example tiles saved with \<^verbatim>\<open>imsave\<close> in a sequence of calls: directory and file name.\<close>

definition example_saves :: "event list \<Rightarrow> (string \<times> string) list" where
  "example_saves evs = [(d, f). TiffImsave d f \<leftarrow> evs]"

text \<open>A thumbnail call with example export, and input directories with \<open>n\<close> tiles of a channel.\<close>

definition example_thumb_args :: thumb_args where
  "example_thumb_args =
     \<lparr> thumb_input_dir = ''/in'',
       thumb_pattern = ''Row01_Well01_{channel}_zstack001_r{row:03}_c{col:03}.tif'',
       thumb_outdir = ''/out'',
       thumb_name = ''S1'',
       thumb_stitching_channel = ''DAPI'',
       thumb_export_examples = True \<rparr>"

definition tile_files :: "string \<Rightarrow> nat \<Rightarrow> string list" where
  "tile_files channel n =
     map (\<lambda>i. ''Row01_Well01_'' @ channel @ ''_zstack001_r001_c00'' @ str_nat i @ ''.tif'') [0..<n]"

text \<open>The small run with a mosaic of 21 rows and 42 columns and one thumbnail pixel cropped
  from the top, the left and the right.\<close>

definition crop_ext :: extern where
  "crop_ext = example_ext\<lparr>mosaic_shape := (21, 42)\<rparr>"

definition crop_args :: stitch_args where
  "crop_args = example_args\<lparr>crop := [(''top'', 1), (''bottom'', 0), (''left'', 1), (''right'', 1)]\<rparr>"

text \<open>
  The images saved with \<^verbatim>\<open>im.save\<close> in a sequence of calls: file name and content.
\<close>

definition saved_images :: "event list \<Rightarrow> (string \<times> content) list" where
  "saved_images evs = [(n, c). ImSave d n c \<leftarrow> evs]"

text \<open>
  A project directory with two wells (and a \<^verbatim>\<open>.DS_Store\<close> entry), the first of which holds
  tiles of two timepoints and a text file; the default arguments of
  \<^verbatim>\<open>prepare_stitch_slurm_job\<close>.
\<close>

definition example_listdir :: "string \<Rightarrow> py_error + string list" where
  "example_listdir d =
     (if d = ''/proj/well_sorted'' then Inr [''Row01_Well02'', ''.DS_Store'', ''Row01_Well01'']
      else if d = ''/proj/well_sorted/Row01_Well01'' then
        Inr [''Timepoint001_Row01_Well01_DAPI_zstack001_r001_c001.tif'',
             ''Timepoint002_Row01_Well01_DAPI_zstack001_r001_c001.tif'',
             ''Timepoint001_Row01_Well01_DAPI_zstack001_r001_c002.tif'',
             ''notes.txt'']
      else Inl FileNotFoundError)"

definition example_slurm_args :: slurm_args where
  "example_slurm_args =
     \<lparr> slurm_path = ''/proj'',
       slurm_stitching_channel = ''mCherry'',
       zstack_value = 1,
       rescale_range_repr = ''(0.1, 99.9)'',
       overlap_repr = ''0.1'',
       jobs_per_file = 24 \<rparr>"

text \<open>
  The directories of a batch preparation: the script directory, the input directory, and
  the three directories that the function creates when missing.
\<close>

definition slurm_outdir :: "slurm_args \<Rightarrow> string" where
  "slurm_outdir args = os_path_join (os_path_join (slurm_path args) ''slurm_jobs'') ''stitch_all''"

definition slurm_input :: "slurm_args \<Rightarrow> string" where
  "slurm_input args = os_path_join (slurm_path args) ''well_sorted''"

definition slurm_dirs :: "slurm_args \<Rightarrow> string list" where
  "slurm_dirs args =
     [slurm_outdir args,
      os_path_join (slurm_path args) ''stitched_wells'',
      os_path_join (slurm_outdir args) ''logs'']"

text \<open>
  A project directory with two wells whose timepoints differ: the first well holds tiles
  of one timepoint, the second of two.
\<close>

definition uneven_listdir :: "string \<Rightarrow> py_error + string list" where
  "uneven_listdir d =
     (if d = ''/proj/well_sorted'' then Inr [''Row01_Well01'', ''Row01_Well02'']
      else if d = ''/proj/well_sorted/Row01_Well01'' then
        Inr [''Timepoint001_Row01_Well01_DAPI_zstack001_r001_c001.tif'']
      else if d = ''/proj/well_sorted/Row01_Well02'' then
        Inr [''Timepoint001_Row01_Well02_DAPI_zstack001_r001_c001.tif'',
             ''Timepoint002_Row01_Well02_DAPI_zstack001_r001_c001.tif'']
      else Inl FileNotFoundError)"



section \<open>Properties\<close>

subsection \<open>Helper lemmas\<close>

lemma enumerate_py_map: "map f (enumerate_py xs) = map (\<lambda>i. f (i, xs ! i)) [0..<length xs]"
  unfolding enumerate_py_def
  by (rule nth_equalityI) auto

lemma str_nat_1: "str_nat (Suc 0) = ''1''"
  by code_simp

lemma str_nat_2: "str_nat (Suc (Suc 0)) = ''2''"
  by code_simp

lemma four_spaces: "replicate 4 CHR '' '' = ''    ''"
  by code_simp

lemma channel_entries_doc:
  "channel_entries (xml_doc channels slide cropped) =
     map (\<lambda>i. (str_nat (i + 1), channels ! i)) [0..<length channels]"
  unfolding channel_entries_def xml_doc_def under_def
  by (simp add: enumerate_py_map comp_def)

lemma image_entries_doc:
  "image_entries (xml_doc channels slide cropped) =
     map (\<lambda>i. (tif_name slide (channels ! i) cropped, str_nat (i + 1))) [0..<length channels]"
  unfolding image_entries_def xml_doc_def under_def image_paths_def tif_name_def
  by (simp add: enumerate_py_map comp_def)

lemma list_index_Inl: "list_index xs x = Inl e \<longleftrightarrow> (x \<notin> set xs \<and> e = ValueError)"
  by (induction xs) (auto split: sum.splits)

lemma list_index_Inr: "list_index xs x = Inr i \<Longrightarrow> i < length xs \<and> xs ! i = x"
  by (induction xs arbitrary: i) (auto split: sum.splits if_splits)

lemma rescale_range_ids_Inl:
  "rescale_range_ids vals items acc = Inl e \<Longrightarrow> e = ValueError \<and> \<not> set (map fst items) \<subseteq> set vals"
  by (induction vals items acc rule: rescale_range_ids.induct)
     (auto split: sum.splits simp: list_index_Inl)

lemma resolve_rescale_range_Inl:
  "resolve_rescale_range vals rr = Inl e \<Longrightarrow>
     e = ValueError \<and> (\<exists>items. rr = RangeDict items \<and> \<not> set (map fst items) \<subseteq> set vals)"
proof (cases rr)
  case (RangeTuple t)
  then show ?thesis if "resolve_rescale_range vals rr = Inl e"
    using that by (simp add: resolve_rescale_range_def)
next
  case (RangeDict items)
  show ?thesis if h: "resolve_rescale_range vals rr = Inl e"
  proof -
    from h RangeDict have "rescale_range_ids vals items [] = Inl e"
      by (simp add: resolve_rescale_range_def split: sum.splits)
    from rescale_range_ids_Inl [OF this] RangeDict show ?thesis by blast
  qed
qed

lemma order_ids_Inl:
  "order_ids vals order = Inl e \<longleftrightarrow> (\<not> set order \<subseteq> set vals \<and> e = ValueError)"
proof (induction order)
  case Nil
  then show ?case by simp
next
  case (Cons c cs)
  show ?case
  proof (cases "list_index vals c")
    case (Inl e')
    then show ?thesis using list_index_Inl [of vals c e'] by auto
  next
    case (Inr i)
    then have "c \<in> set vals" using list_index_Inl [of vals c ValueError] by auto
    then show ?thesis using Cons Inr by (auto split: sum.splits)
  qed
qed

lemma files_emit [simp]: "files (emit e w) = files w"
  by (simp add: emit_def)

lemma calls_emit [simp]: "calls (emit e w) = calls w @ [e]"
  by (simp add: emit_def)

lemma export_ome_zarr_on_dir:
  "files w (zarr_path out args) = Some (Dir old) \<Longrightarrow>
   export_ome_zarr ext out args merged w =
     (Inr (), w\<lparr>files := (files w)(zarr_path out args \<mapsto>
                  Dir (store_put (zarr_items ext args merged) []))\<rparr>)"
  by (simp add: export_ome_zarr_def open_store_def)

lemma export_ome_zarr_on_none:
  "files w (zarr_path out args) = None \<Longrightarrow>
   export_ome_zarr ext out args merged w =
     (Inr (), w\<lparr>files := (files w)(zarr_path out args \<mapsto>
                  Dir (store_put (zarr_items ext args merged) []))\<rparr>)"
  by (simp add: export_ome_zarr_def open_store_def)

lemma export_ome_zarr_on_file:
  "files w (zarr_path out args) = Some (File c) \<Longrightarrow>
   export_ome_zarr ext out args merged w = (Inl NotADirectoryError, w)"
  by (simp add: export_ome_zarr_def open_store_def)

lemma export_ome_zarr_ok:
  assumes "fst (export_ome_zarr ext out args merged w) = Inr ()"
  shows "export_ome_zarr ext out args merged w =
     (Inr (), w\<lparr>files := (files w)(zarr_path out args \<mapsto>
                  Dir (store_put (zarr_items ext args merged) []))\<rparr>)"
proof (cases "files w (zarr_path out args)")
  case None
  then show ?thesis by (rule export_ome_zarr_on_none)
next
  case (Some n)
  show ?thesis
  proof (cases n)
    case (File c)
    with Some assms show ?thesis by (simp add: export_ome_zarr_on_file)
  next
    case (Dir old)
    with Some show ?thesis by (simp add: export_ome_zarr_on_dir)
  qed
qed

lemma length_draw: "length (draw rnd j pool k) = min k (length pool)"
proof (induction k arbitrary: j pool)
  case 0
  then show ?case by simp
next
  case (Suc k)
  show ?case
  proof (cases "pool = []")
    case True
    then show ?thesis by simp
  next
    case False
    define i where "i = rnd j mod length pool"
    have i: "i < length pool" using False by (simp add: i_def)
    then have len: "length (take i pool @ drop (Suc i) pool) = length pool - 1"
      by simp
    have "length (draw rnd (Suc j) (take i pool @ drop (Suc i) pool) k)
            = min k (length pool - 1)"
      unfolding Suc.IH len ..
    moreover have "draw rnd j pool (Suc k)
            = pool ! i # draw rnd (Suc j) (take i pool @ drop (Suc i) pool) k"
      using False by (simp add: Let_def i_def)
    ultimately show ?thesis using i by simp
  qed
qed

lemma mset_draw: "mset (draw rnd j pool k) \<subseteq># mset pool"
proof (induction k arbitrary: j pool)
  case 0
  then show ?case by simp
next
  case (Suc k)
  show ?case
  proof (cases "pool = []")
    case True
    then show ?thesis by simp
  next
    case False
    define i where "i = rnd j mod length pool"
    have i: "i < length pool" using False by (simp add: i_def)
    have "pool = take i pool @ pool ! i # drop (Suc i) pool"
      using id_take_nth_drop [OF i] .
    then have "mset pool = mset (take i pool @ pool ! i # drop (Suc i) pool)"
      by simp
    then have split: "mset pool = add_mset (pool ! i) (mset (take i pool @ drop (Suc i) pool))"
      by simp
    have ih: "mset (draw rnd (Suc j) (take i pool @ drop (Suc i) pool) k)
            \<subseteq># mset (take i pool @ drop (Suc i) pool)"
      by (rule Suc.IH)
    have step: "draw rnd j pool (Suc k)
            = pool ! i # draw rnd (Suc j) (take i pool @ drop (Suc i) pool) k"
      using False by (simp add: Let_def i_def)
    show ?thesis
      unfolding step by (subst split) (use ih in simp)
  qed
qed

lemma example_saves_append [simp]:
  "example_saves (xs @ ys) = example_saves xs @ example_saves ys"
  by (simp add: example_saves_def)

lemma map_length_assembled_plane:
  "map length (assembled_plane ext channel)
     = replicate (fst (mosaic_shape ext)) (snd (mosaic_shape ext))"
  by (simp add: assembled_plane_def comp_def map_replicate_const)

lemma assemble_loop_shape:
  assumes "assemble_loop ext dir rr ps mosaics w = (Inr merged, w')"
    and "\<forall>pl \<in> set mosaics. map length pl = replicate (fst (mosaic_shape ext)) (snd (mosaic_shape ext))"
  shows "length merged = length mosaics
    \<and> (\<forall>pl \<in> set merged. map length pl = replicate (fst (mosaic_shape ext)) (snd (mosaic_shape ext)))"
  using assms
proof (induction ext dir rr ps mosaics w rule: assemble_loop.induct)
  case (1 ext dir rr mosaics w)
  then show ?case by simp
next
  case (2 ext dir rr i channel rest mosaics w)
  let ?S = "replicate (fst (mosaic_shape ext)) (snd (mosaic_shape ext))"
  let ?w1 = "emit (AssembleChannel channel) w"
  let ?m1 = "mosaics[i := assembled_plane ext channel]"
  from "2.prems"(1) have i: "\<not> length mosaics \<le> i"
    by (auto simp: Let_def split: if_splits)
  have m1: "\<forall>pl \<in> set ?m1. map length pl = ?S"
    using "2.prems"(2) set_update_subset_insert [of mosaics i "assembled_plane ext channel"]
    by (auto simp: map_length_assembled_plane)
  show ?case
  proof (cases "dir = PStr ''full_image''")
    case False
    with "2.prems"(1) i have run: "assemble_loop ext dir rr rest ?m1 ?w1 = (Inr merged, w')"
      by (simp add: Let_def)
    from "2.IH"(2) [OF refl i refl False run m1] show ?thesis by simp
  next
    case True
    obtain cutoffs where
      c: "(case rr of RangeDict ids \<Rightarrow> dict_get ids channel | RangeTuple t \<Rightarrow> Inr t) = Inr cutoffs"
      using "2.prems"(1) i True by (auto simp: Let_def split: sum.splits)
    let ?m2 = "?m1[i := map (map (rescale_px ext cutoffs (?m1 ! i))) (?m1 ! i)]"
    let ?w2 = "emit (RescaleFullImage channel cutoffs) ?w1"
    from "2.prems"(1) i True c have run: "assemble_loop ext dir rr rest ?m2 ?w2 = (Inr merged, w')"
      by (simp add: Let_def)
    have "map length (map (map (rescale_px ext cutoffs (?m1 ! i))) (?m1 ! i)) = ?S"
      using i by (simp add: comp_def map_length_assembled_plane [unfolded comp_def])
    then have m2: "\<forall>pl \<in> set ?m2. map length pl = ?S"
      using m1 set_update_subset_insert [of ?m1 i "map (map (rescale_px ext cutoffs (?m1 ! i))) (?m1 ! i)"]
      by auto
    from "2.IH"(1) [OF refl i refl True c run m2] show ?thesis by simp
  qed
qed






lemma length_np_unique: "length (np_unique xs) = card (set xs)"
  by (simp add: np_unique_def length_remdups_card_conv)

lemma length_to_process:
  "length (to_process args input_path timepoints wells) = length wells * length timepoints"
  by (induction timepoints) (simp_all add: to_process_def)

lemma n_jobs_of_ceiling:
  "j \<noteq> 0 \<Longrightarrow> n_jobs_of rows j = Inr \<lceil>real rows / real_of_int j\<rceil>"
proof -
  assume "j \<noteq> 0"
  have "\<lceil>real_of_int (int rows) / real_of_int j\<rceil> = - (- int rows div j)"
    by (rule ceiling_divide_eq_div)
  then have "\<lceil>real rows / real_of_int j\<rceil> = - (- int rows div j)"
    by simp
  with \<open>j \<noteq> 0\<close> show ?thesis by (simp add: n_jobs_of_def)
qed

lemma sublist_concat_member: "x \<in> set xss \<Longrightarrow> sublist x (concat xss)"
proof -
  assume "x \<in> set xss"
  then obtain ps ss where "xss = ps @ x # ss"
    by (auto simp: in_set_conv_decomp)
  then have "concat xss = concat ps @ x @ concat ss" by simp
  then show ?thesis unfolding sublist_def by blast
qed

lemma array_line_in_run_sh:
  "sublist (''#SBATCH --array=1-'' @ str_int n @ ''%20 '' @ nl @ nl) (run_sh args d n)"
  unfolding run_sh_def by (rule sublist_concat_member) simp

lemma to_process_slidenames:
  "map (\<lambda>(p, s, d). s) (to_process args input_path timepoints wells)
     = concat (map (\<lambda>t. map (\<lambda>w. t @ ''_'' @ w) wells) timepoints)"
  by (induction timepoints) (simp_all add: to_process_def job_row_def comp_def)

lemma table_indices:
  "map (\<lambda>(i, p, s, d). i) (map (\<lambda>(i, (a, b, c)). (i, a, b, c)) (enumerate_py rows))
     = [0..<length rows]"
  unfolding enumerate_py_def by (rule nth_equalityI) (auto simp: split_def)

lemma table_slidenames:
  "map (\<lambda>(i, p, s, d). s) (map (\<lambda>(i, (a, b, c)). (i, a, b, c)) (enumerate_py rows))
     = map (\<lambda>(p, s, d). s) rows"
  unfolding enumerate_py_def by (rule nth_equalityI) (auto simp: split_def)

lemma write_jobs_ok:
  assumes "listdir input_path = Inr files0"
    and "search_all ''Row.._Well..'' (filter (\<lambda>x. x \<noteq> ''.DS_Store'') files0) = Inr ws"
    and "ws \<noteq> []"
    and "listdir (os_path_join input_path (hd (np_unique ws))) = Inr files1"
    and "search_all ''^Timepoint...'' (filter (suffix ''.tif'') files1) = Inr ts"
    and "ts \<noteq> []"
    and "jobs_per_file args \<noteq> 0"
  shows "\<exists>rows. length rows = card (set ws) * card (set ts)
      \<and> map (\<lambda>(i, p, s, d). i) rows = [0..<card (set ws) * card (set ts)]
      \<and> map (\<lambda>(i, p, s, d). s) rows
          = concat (map (\<lambda>t. map (\<lambda>w. t @ ''_'' @ w) (np_unique ws)) (np_unique ts))
      \<and> write_jobs listdir args outdir_slurm input_path w =
        (Inr (),
         write_file (outdir_slurm @ ''/run.sh'')
           (Script (run_sh args outdir_slurm
              \<lceil>real (card (set ws) * card (set ts)) / real_of_int (jobs_per_file args)\<rceil>))
           (write_file (outdir_slurm @ ''/array_inputs.csv'') (ParamTable rows) w))"
proof -
  let ?rows = "to_process args input_path (np_unique ts) (np_unique ws)"
  let ?table = "map (\<lambda>(i, (a, b, c)). (i, a, b, c)) (enumerate_py ?rows)"
  have len: "length ?rows = card (set ws) * card (set ts)"
    by (simp add: length_to_process length_np_unique)
  have "card (set ws) > 0" and "card (set ts) > 0"
    using assms(3,6) by (simp_all add: card_gt_0_iff)
  with len have ne: "?rows \<noteq> []" by auto
  from assms(3) have "np_unique ws \<noteq> []"
    using length_np_unique [of ws] \<open>card (set ws) > 0\<close> by auto
  then obtain well0 more where u: "np_unique ws = well0 # more"
    by (cases "np_unique ws") auto
  then have hd: "hd (np_unique ws) = well0" by simp
  have nj: "n_jobs_of (length ?rows) (jobs_per_file args)
      = Inr \<lceil>real (card (set ws) * card (set ts)) / real_of_int (jobs_per_file args)\<rceil>"
    using n_jobs_of_ceiling [OF assms(7)] len by simp
  have run: "write_jobs listdir args outdir_slurm input_path w =
        (Inr (),
         write_file (outdir_slurm @ ''/run.sh'')
           (Script (run_sh args outdir_slurm
              \<lceil>real (card (set ws) * card (set ts)) / real_of_int (jobs_per_file args)\<rceil>))
           (write_file (outdir_slurm @ ''/array_inputs.csv'') (ParamTable ?table) w))"
    unfolding write_jobs_def
    using assms(1,2,5) assms(4) [unfolded hd] ne nj
    by (simp add: u [symmetric] Let_def del: of_nat_mult) (simp add: u)
  have l: "length ?table = card (set ws) * card (set ts)"
    using len by (simp add: enumerate_py_def)
  have i: "map (\<lambda>(i, p, s, d). i) ?table = [0..<card (set ws) * card (set ts)]"
    using table_indices [of ?rows] len by simp
  have n: "map (\<lambda>(i, p, s, d). s) ?table
          = concat (map (\<lambda>t. map (\<lambda>w. t @ ''_'' @ w) (np_unique ws)) (np_unique ts))"
    by (simp only: table_slidenames to_process_slidenames)
  from run l i n show ?thesis by blast
qed

lemma ensure_dir_ok:
  assumes "\<forall>c. files w d \<noteq> Some (File c)"
  shows "fst (ensure_dir d w) = Inr ()"
  using assms by (auto simp: ensure_dir_def split: option.splits node.splits)

lemma ensure_dir_keeps:
  assumes "\<forall>c. files w q \<noteq> Some (File c)"
  shows "\<forall>c. files (snd (ensure_dir d w)) q \<noteq> Some (File c)"
  using assms by (auto simp: ensure_dir_def split: option.splits node.splits)

lemma files_write_file: "files (write_file p c w) = (files w)(p \<mapsto> File c)"
  by (simp add: write_file_def)

lemma example_saves_Nil [simp]: "example_saves [] = []"
  by (simp add: example_saves_def)

lemma example_saves_Cons [simp]:
  "example_saves (e # es) = (case e of TiffImsave d f \<Rightarrow> [(d, f)] | _ \<Rightarrow> []) @ example_saves es"
  by (cases e) (simp_all add: example_saves_def)

lemma export_example_files_ok:
  assumes "\<forall>f \<in> set fs. py_replace f (thumb_stitching_channel args) channel \<in> set listing"
  shows "fst (export_example_files listing args od channel fs w) = Inr ()
    \<and> example_saves (calls (snd (export_example_files listing args od channel fs w)))
        = example_saves (calls w)
          @ map (\<lambda>f. (od, py_replace f (thumb_stitching_channel args) channel)) fs"
  using assms
proof (induction fs arbitrary: w)
  case Nil
  then show ?case by simp
next
  case (Cons f fs)
  let ?f = "py_replace f (thumb_stitching_channel args) channel"
  let ?w = "write_file (os_path_join od ?f) (Example (os_path_join (thumb_input_dir args) ?f))
              (emit (TiffImsave od ?f) w)"
  from Cons.prems have here: "?f \<in> set listing"
    and rest: "\<forall>f \<in> set fs. py_replace f (thumb_stitching_channel args) channel \<in> set listing"
    by simp_all
  have step: "export_example_files listing args od channel (f # fs) w
                = export_example_files listing args od channel fs ?w"
    using here by (simp add: Let_def)
  have "calls ?w = calls w @ [TiffImsave od ?f]"
    by (simp add: write_file_def)
  with Cons.IH [OF rest, of ?w] show ?case
    unfolding step by simp
qed

lemma export_example_channels_ok:
  assumes "\<forall>channel \<in> set chs. \<forall>f \<in> set fs.
             py_replace f (thumb_stitching_channel args) channel \<in> set listing"
  shows "fst (export_example_channels listing args od chs fs w) = Inr ()
    \<and> example_saves (calls (snd (export_example_channels listing args od chs fs w)))
        = example_saves (calls w)
          @ concat (map (\<lambda>channel.
                map (\<lambda>f. (od, py_replace f (thumb_stitching_channel args) channel)) fs) chs)"
  using assms
proof (induction chs arbitrary: w)
  case Nil
  then show ?case by simp
next
  case (Cons channel chs)
  obtain w1 where one: "export_example_files listing args od channel fs w = (Inr (), w1)"
    and saves1: "example_saves (calls w1) = example_saves (calls w)
          @ map (\<lambda>f. (od, py_replace f (thumb_stitching_channel args) channel)) fs"
    using export_example_files_ok [of fs args channel listing od w] Cons.prems
    by (cases "export_example_files listing args od channel fs w") auto
  have step: "export_example_channels listing args od (channel # chs) fs w
                = export_example_channels listing args od chs fs w1"
    by (simp add: one)
  from Cons.prems have rest: "\<forall>channel \<in> set chs. \<forall>f \<in> set fs.
             py_replace f (thumb_stitching_channel args) channel \<in> set listing"
    by simp
  from Cons.IH [OF rest, of w1] show ?case
    unfolding step by (simp add: saves1)
qed



lemma py_in_sublist: "py_in sub s = sublist sub s"
  by (induction s) (auto simp: sublist_Cons_right)

lemma sublist_split_at:
  assumes "sublist xs (ys @ a # zs)" and "a \<notin> set xs"
  shows "sublist xs ys \<or> sublist xs zs"
proof -
  from assms(1) obtain ps ss where eq: "ys @ a # zs = ps @ xs @ ss"
    by (auto simp: sublist_def)
  then consider us where "ys = ps @ us" "us @ a # zs = xs @ ss"
    | us where "ys @ us = ps" "a # zs = us @ xs @ ss"
    by (auto simp: append_eq_append_conv2)
  then show ?thesis
  proof cases
    case 1
    from 1(2) consider vs where "us = xs @ vs" | vs where "us @ vs = xs" "a # zs = vs @ ss"
      by (auto simp: append_eq_append_conv2)
    then show ?thesis
    proof cases
      case 1
      with \<open>ys = ps @ us\<close> show ?thesis by auto
    next
      case 2
      show ?thesis
      proof (cases vs)
        case Nil
        with 2 \<open>ys = ps @ us\<close> show ?thesis by auto
      next
        case (Cons v vs')
        with 2 have "a \<in> set xs" by auto
        with assms(2) show ?thesis by simp
      qed
    qed
  next
    case 2
    show ?thesis
    proof (cases us)
      case Nil
      with 2 have "a # zs = xs @ ss" by simp
      then show ?thesis
        using assms(2) by (cases xs) auto
    next
      case (Cons u us')
      with 2 have "zs = us' @ xs @ ss" by simp
      then show ?thesis by auto
    qed
  qed
qed

lemma sublist_at_separator:
  assumes "sublist (a # xs) (ys @ a # zs)" and "a \<notin> set xs"
  shows "sublist (a # xs) ys \<or> prefix xs zs \<or> sublist (a # xs) zs"
proof -
  from assms(1) obtain ps ss where eq: "ys @ a # zs = ps @ (a # xs) @ ss"
    by (auto simp: sublist_def)
  then consider us where "ys = ps @ us" "us @ a # zs = (a # xs) @ ss"
    | us where "ys @ us = ps" "a # zs = us @ (a # xs) @ ss"
    by (auto simp: append_eq_append_conv2)
  then show ?thesis
  proof cases
    case 1
    show ?thesis
    proof (cases us)
      case Nil
      with 1(2) have "zs = xs @ ss" by simp
      then show ?thesis by auto
    next
      case (Cons u us')
      with 1(2) have u: "u = a" and rest: "us' @ a # zs = xs @ ss" by simp_all
      from rest consider vs where "us' = xs @ vs" | vs where "us' @ vs = xs" "a # zs = vs @ ss"
        by (auto simp: append_eq_append_conv2)
      then show ?thesis
      proof cases
        case 1
        with \<open>ys = ps @ us\<close> Cons u have "ys = ps @ (a # xs) @ vs" by simp
        then have "sublist (a # xs) ys" unfolding sublist_def by blast
        then show ?thesis by simp
      next
        case 2
        show ?thesis
        proof (cases vs)
          case Nil
          with 2 \<open>ys = ps @ us\<close> Cons u have "ys = ps @ (a # xs) @ []" by simp
          then have "sublist (a # xs) ys" unfolding sublist_def by blast
          then show ?thesis by simp
        next
          case (Cons v vs')
          with 2 have "a \<in> set xs" by auto
          with assms(2) show ?thesis by simp
        qed
      qed
    qed
  next
    case 2
    show ?thesis
    proof (cases us)
      case Nil
      with 2(2) have "zs = xs @ ss" by simp
      then show ?thesis by auto
    next
      case (Cons u us')
      with 2(2) have "zs = us' @ (a # xs) @ ss" by simp
      then have "sublist (a # xs) zs" unfolding sublist_def by blast
      then show ?thesis by simp
    qed
  qed
qed

lemma prefix_cropped_tif: "prefix ''cropped'' (c @ ''.tif'') \<longleftrightarrow> prefix ''cropped'' c"
proof
  assume "prefix ''cropped'' (c @ ''.tif'')"
  then consider "prefix ''cropped'' c" | us where "''cropped'' = c @ us" "prefix us ''.tif''"
    by (auto simp: prefix_append)
  then show "prefix ''cropped'' c"
  proof cases
    case 1
    then show ?thesis .
  next
    case 2
    show ?thesis
    proof (cases us)
      case Nil
      with 2 show ?thesis by simp
    next
      case (Cons u us')
      with 2(2) have "u = CHR ''.''" by simp
      with Cons 2(1) have "CHR ''.'' \<in> set ''cropped''"
        by (metis in_set_conv_decomp)
      then show ?thesis by simp
    qed
  qed
next
  assume "prefix ''cropped'' c"
  then show "prefix ''cropped'' (c @ ''.tif'')"
    by (rule prefix_prefix)
qed

lemma marker_in_plain_name:
  "sublist ''_cropped'' (s @ ''_'' @ c @ ''.tif'')
     \<longleftrightarrow> sublist ''_cropped'' s \<or> prefix ''cropped'' c \<or> sublist ''_cropped'' c"
proof
  assume "sublist ''_cropped'' (s @ ''_'' @ c @ ''.tif'')"
  then have "sublist (CHR ''_'' # ''cropped'') (s @ CHR ''_'' # (c @ ''.tif''))"
    by simp
  then have "sublist ''_cropped'' s \<or> prefix ''cropped'' (c @ ''.tif'')
      \<or> sublist ''_cropped'' (c @ ''.tif'')"
    by (rule sublist_at_separator) simp
  moreover have "sublist ''_cropped'' c" if "sublist ''_cropped'' (c @ ''.tif'')"
  proof -
    from that have "sublist ''_cropped'' (c @ CHR ''.'' # ''tif'')" by simp
    then have "sublist ''_cropped'' c \<or> sublist ''_cropped'' ''tif''"
      by (rule sublist_split_at) simp
    moreover have "\<not> sublist ''_cropped'' ''tif''"
      by (auto dest: sublist_length_le)
    ultimately show ?thesis by simp
  qed
  ultimately show "sublist ''_cropped'' s \<or> prefix ''cropped'' c \<or> sublist ''_cropped'' c"
    by (auto simp: prefix_cropped_tif)
next
  assume "sublist ''_cropped'' s \<or> prefix ''cropped'' c \<or> sublist ''_cropped'' c"
  then consider "sublist ''_cropped'' s" | "prefix ''cropped'' c" | "sublist ''_cropped'' c"
    by blast
  then show "sublist ''_cropped'' (s @ ''_'' @ c @ ''.tif'')"
  proof cases
    case 1
    then show ?thesis by (simp add: sublist_append)
  next
    case 2
    then obtain c' where "c = ''cropped'' @ c'" by (auto simp: prefix_def)
    then have "s @ ''_'' @ c @ ''.tif'' = s @ ''_cropped'' @ (c' @ ''.tif'')" by simp
    then show ?thesis unfolding sublist_def by blast
  next
    case 3
    then have "sublist ''_cropped'' (c @ ''.tif'')" by (simp add: sublist_append)
    then have "sublist ''_cropped'' (''_'' @ c @ ''.tif'')"
      by (metis append_Cons append_Nil sublist_Cons_right)
    then show ?thesis by (simp add: sublist_append)
  qed
qed

lemma marker_cropped: "sublist ''_cropped'' (s @ ''_'' @ c @ ''_cropped.tif'')"
proof -
  have "s @ ''_'' @ c @ ''_cropped.tif'' = (s @ ''_'' @ c) @ ''_cropped'' @ ''.tif''"
    by simp
  then show ?thesis
    unfolding sublist_def by blast
qed

lemma marker_in_tif_name:
  "py_in ''_cropped'' (tif_name s c cropped)
     \<longleftrightarrow> cropped \<or> py_in ''_cropped'' s \<or> prefix ''cropped'' c \<or> py_in ''_cropped'' c"
  using marker_in_plain_name [of s c] marker_cropped [of s c]
  by (simp add: tif_name_def py_in_sublist)


lemma saved_images_Nil [simp]: "saved_images [] = []"
  by (simp add: saved_images_def)

lemma saved_images_Cons [simp]:
  "saved_images (e # es)
     = (case e of ImSave d n c \<Rightarrow> [(n, c)] | _ \<Rightarrow> []) @ saved_images es"
  by (cases e) (simp_all add: saved_images_def)

lemma saved_images_append [simp]:
  "saved_images (xs @ ys) = saved_images xs @ saved_images ys"
  by (simp add: saved_images_def)

lemma calls_write_file [simp]: "calls (write_file p c w) = calls w"
  by (simp add: write_file_def)

lemma saved_images_assemble_loop:
  "saved_images (calls (snd (assemble_loop ext dir rr ps mosaics w))) = saved_images (calls w)"
  by (induction ext dir rr ps mosaics w rule: assemble_loop.induct)
     (auto simp: Let_def split: sum.splits)

lemma assemble_loop_result:
  "fst (assemble_loop ext dir rr ps mosaics w) = fst (assemble_loop ext dir rr ps mosaics w')"
proof (induction ext dir rr ps mosaics w arbitrary: w' rule: assemble_loop.induct)
  case (1 ext dir rr mosaics w)
  show ?case by simp
next
  case (2 ext dir rr i channel rest mosaics w)
  show ?case
  proof (cases "length mosaics \<le> i")
    case True
    then show ?thesis by (simp add: Let_def)
  next
    case False
    show ?thesis
    proof (cases "dir = PStr ''full_image''")
      case no: False
      from "2.IH"(2) [OF refl False refl no, of "emit (AssembleChannel channel) w'"]
      show ?thesis using False no by (simp add: Let_def)
    next
      case full: True
      show ?thesis
      proof (cases "case rr of RangeDict ids \<Rightarrow> dict_get ids channel | RangeTuple t \<Rightarrow> Inr t")
        case (Inl e)
        then show ?thesis using False full by (simp add: Let_def)
      next
        case (Inr cutoffs)
        from "2.IH"(1) [OF refl False refl full Inr,
            of "emit (RescaleFullImage channel cutoffs) (emit (AssembleChannel channel) w')"]
        show ?thesis using False full Inr by (simp add: Let_def)
      qed
    qed
  qed
qed

lemma assemble_mosaic_parts:
  "saved_images (calls (snd (assemble_mosaic ext out args rr chans w))) = saved_images (calls w)
   \<and> (\<not> 0 < crop_sum (crop args) \<longrightarrow>
        fst (assemble_mosaic ext out args rr chans w)
          = fst (assemble_loop ext (do_intensity_rescale args) rr (enumerate_py chans)
                   (replicate (length (channel_keys ext))
                      (replicate (fst (mosaic_shape ext)) (replicate (snd (mosaic_shape ext)) 0)))
                   w0))"
proof -
  let ?w1 = "w\<lparr>TEMP_DIR_NAME := Some (temp_location ext out)\<rparr>"
  let ?init = "replicate (length (channel_keys ext))
         (replicate (fst (mosaic_shape ext)) (replicate (snd (mosaic_shape ext)) (0::pixel)))"
  let ?loop = "assemble_loop ext (do_intensity_rescale args) rr (enumerate_py chans) ?init"
  obtain res w2 where loop: "?loop ?w1 = (res, w2)"
    by (cases "?loop ?w1")
  have "snd (assemble_mosaic ext out args rr chans w) = w2"
    using loop by (cases res) (simp_all add: assemble_mosaic_def Let_def)
  moreover have "saved_images (calls w2) = saved_images (calls w)"
    using saved_images_assemble_loop [of ext "do_intensity_rescale args" rr "enumerate_py chans"
        ?init ?w1] loop by simp
  moreover have "fst (assemble_mosaic ext out args rr chans w) = fst (?loop w0)"
    if "\<not> 0 < crop_sum (crop args)"
  proof -
    have "fst (assemble_mosaic ext out args rr chans w) = res"
      using loop that by (cases res) (simp_all add: assemble_mosaic_def Let_def crop_mosaics_def)
    also have "res = fst (?loop ?w1)" using loop by simp
    also have "\<dots> = fst (?loop w0)" by (rule assemble_loop_result)
    finally show ?thesis .
  qed
  ultimately show ?thesis by simp
qed

lemma saved_images_save_planes:
  "saved_images (calls (save_planes out slide cropped merged ps w))
     = saved_images (calls w)
       @ map (\<lambda>(i, c). (tif_name slide c cropped, Tiff (merged ! i))) ps"
  by (induction ps arbitrary: w) auto

lemma saved_images_export_tif:
  "saved_images (calls (export_tif ext out args merged w))
     = saved_images (calls w)
       @ map (\<lambda>(i, c). (tif_name (slidename args) c (0 < crop_sum (crop args)), Tiff (merged ! i)))
           (enumerate_py (channel_names ext))"
  by (simp add: export_tif_def Let_def saved_images_save_planes split: prod.splits)

lemma saved_images_cleanup [simp]: "saved_images (calls (cleanup w)) = saved_images (calls w)"
  by (simp add: cleanup_def split: option.splits)

lemma calls_export_ome_zarr [simp]:
  "calls (snd (export_ome_zarr ext out args merged w)) = calls w"
  by (simp add: export_ome_zarr_def Let_def split: option.splits node.splits sum.splits)

lemma calls_export_ome_tif [simp]: "calls (export_ome_tif ext out args w) = calls w"
  by (simp add: export_ome_tif_def)

lemma saved_images_export_results:
  "saved_images (calls (snd (export_results ext out args rr chans w))) = saved_images (calls w)
   \<or> (\<exists>merged w1. fst (assemble_mosaic ext out args rr chans w1) = Inr merged
        \<and> saved_images (calls (snd (export_results ext out args rr chans w)))
            = saved_images (calls w)
              @ map (\<lambda>(i, c). (tif_name (slidename args) c (0 < crop_sum (crop args)),
                               Tiff (merged ! i)))
                  (enumerate_py (channel_names ext)))"
proof -
  define w1 where "w1 = (if ''return_array'' \<in> set (filetype args) then w
             else if return_tile_positions args then
               write_file (os_path_join out (slidename args @ ''_tile_positions.tsv''))
                 (PositionTable (positions ext)) w
             else w)"
  have w1: "saved_images (calls w1) = saved_images (calls w)"
    by (simp add: w1_def)
  obtain res w2 where am: "assemble_mosaic ext out args rr chans w1 = (res, w2)"
    by (cases "assemble_mosaic ext out args rr chans w1")
  have w2: "saved_images (calls w2) = saved_images (calls w)"
    using assemble_mosaic_parts [of ext out args rr chans w1] am w1 by simp
  have unfold: "export_results ext out args rr chans w =
      (if ''return_array'' \<in> set (filetype args) then
           (case res of
              Inl e \<Rightarrow> (Inl e, w2)
            | Inr merged_array \<Rightarrow> (Inr (Some (merged_array, channel_names ext)), w2))
         else if ''.tif'' \<in> set (filetype args) then
           (case res of
              Inl e \<Rightarrow> (Inl e, w2)
            | Inr merged_array \<Rightarrow>
                (Inr None, cleanup (export_tif ext out args merged_array w2)))
         else if ''ome.tif'' \<in> set (filetype args) then
           (Inr None, cleanup (export_ome_tif ext out args w1))
         else if ''ome.zarr'' \<in> set (filetype args) then
           (case res of
              Inl e \<Rightarrow> (Inl e, w2)
            | Inr merged_array \<Rightarrow>
                (case export_ome_zarr ext out args merged_array w2 of
                   (Inl e, w3) \<Rightarrow> (Inl e, w3)
                 | (Inr u, w3) \<Rightarrow> (Inr None, cleanup w3)))
         else (Inr None, cleanup w1))"
    unfolding export_results_def Let_def w1_def [symmetric] am
    by (cases res) simp_all
  have zarr: "saved_images (calls (snd (case export_ome_zarr ext out args m w2 of
                   (Inl e, w3) \<Rightarrow> (Inl e, w3)
                 | (Inr u, w3) \<Rightarrow> (Inr None :: py_error + (plane list \<times> string list) option,
                                   cleanup w3))))
              = saved_images (calls w)" for m
  proof -
    obtain r3 w3 where z: "export_ome_zarr ext out args m w2 = (r3, w3)"
      by (cases "export_ome_zarr ext out args m w2")
    then have "calls w3 = calls w2"
      using calls_export_ome_zarr [of ext out args m w2] by simp
    then show ?thesis
      using w2 by (cases r3) (simp_all add: z)
  qed
  show ?thesis
  proof (cases res)
    case (Inl e)
    then show ?thesis
      unfolding unfold by (simp add: w1 w2)
  next
    case (Inr merged)
    with am have m: "fst (assemble_mosaic ext out args rr chans w1) = Inr merged"
      by simp
    show ?thesis
    proof (cases "''return_array'' \<notin> set (filetype args) \<and> ''.tif'' \<in> set (filetype args)")
      case True
      then have "saved_images (calls (snd (export_results ext out args rr chans w)))
            = saved_images (calls w)
              @ map (\<lambda>(i, c). (tif_name (slidename args) c (0 < crop_sum (crop args)),
                               Tiff (merged ! i)))
                  (enumerate_py (channel_names ext))"
        unfolding unfold using Inr by (simp add: saved_images_export_tif w2)
      with m show ?thesis by blast
    next
      case False
      then have "saved_images (calls (snd (export_results ext out args rr chans w)))
                   = saved_images (calls w)"
        unfolding unfold using Inr by (auto simp: w1 w2 zarr)
      then show ?thesis by simp
    qed
  qed
qed

lemma saved_images_generate_stitched:
  "saved_images (calls (snd (generate_stitched ext args w))) = saved_images (calls w)
   \<or> (\<exists>rr chans merged w1.
        resolve_rescale_range (channel_names ext) (rescale_range args) = Inr rr
        \<and> select_channels ext args = Inr chans
        \<and> fst (assemble_mosaic ext (abspath ext (outdir args)) args rr chans w1) = Inr merged
        \<and> saved_images (calls (snd (generate_stitched ext args w)))
            = saved_images (calls w)
              @ map (\<lambda>(i, c). (tif_name (slidename args) c (0 < crop_sum (crop args)),
                               Tiff (merged ! i)))
                  (enumerate_py (channel_names ext)))"
proof (cases "resolve_rescale_range (channel_names ext) (rescale_range args)")
  case (Inl e)
  then show ?thesis by (simp add: generate_stitched_def)
next
  case rr: (Inr rr)
  let ?slide0 = "\<lparr> slide_rescale_range = rr, slide_do_rescale = do_intensity_rescale args,
                   slide_WGAchannel = WGAchannel args, slide_no_rescale_channel = None \<rparr>"
  show ?thesis
  proof (cases "set_no_rescale (channel_names ext) args ?slide0")
    case (Inl e)
    with rr show ?thesis by (simp add: generate_stitched_def)
  next
    case slide: (Inr slide)
    show ?thesis
    proof (cases "list_index (channel_names ext) (stitching_channel args)")
      case (Inl e)
      with rr slide show ?thesis by (simp add: generate_stitched_def)
    next
      case idx: (Inr channel_id)
      define w3 where "w3 = (if plot_QC args then
           emit (PlotEdgeQuality (abspath ext (outdir args)))
             (emit (PlotEdgeScatter (abspath ext (outdir args)))
                (emit (Align slide channel_id) (emit AxisFlip w)))
         else emit (Align slide channel_id) (emit AxisFlip w))"
      have w3: "saved_images (calls w3) = saved_images (calls w)"
        by (simp add: w3_def)
      show ?thesis
      proof (cases "select_channels ext args")
        case (Inl e)
        with rr slide idx w3 show ?thesis
          by (simp add: generate_stitched_def Let_def w3_def [symmetric])
      next
        case (Inr chans)
        with rr slide idx have run: "generate_stitched ext args w
            = export_results ext (abspath ext (outdir args)) args rr chans w3"
          by (simp add: generate_stitched_def Let_def w3_def [symmetric])
        from saved_images_export_results [of ext "abspath ext (outdir args)" args rr chans w3]
        show ?thesis
          unfolding run w3 using rr Inr by blast
      qed
    qed
  qed
qed


lemma map_fst_enumerate_py:
  "map (\<lambda>(i, c). f c) (enumerate_py xs) = map f xs"
  unfolding enumerate_py_def by (rule nth_equalityI) auto

lemma map_snd_enumerate_py:
  "map (\<lambda>(i, c). g i) (enumerate_py xs) = map g [0..<length xs]"
  unfolding enumerate_py_def by (rule nth_equalityI) auto

subsection \<open>The sidecar\<close>

text \<open>
  C6. For every channel list and slide name the document written by \<^verbatim>\<open>_write_xml\<close> has,
  under the root \<^verbatim>\<open>BIAS\<close>, one \<^verbatim>\<open>channel\<close> element per channel, with ids 1, 2, ... in list
  order and the channel's name, and one \<^verbatim>\<open>image\<close> element per channel whose url is
  \<^verbatim>\<open>{slide}_{channel}.tif\<close>, or \<^verbatim>\<open>{slide}_{channel}_cropped.tif\<close> when cropped, and which refers to
  the same id. The layout handed to the serialiser is four spaces of indentation and
  CR LF as newline. For the channels DAPI, Alexa488 and the slide S1 the ids are 1 and 2
  and the urls are S1_DAPI.tif and S1_Alexa488.tif.
\<close>

theorem write_xml_sidecar:
  "channel_entries (document (snd (write_xml path channels slide cropped))) =
     map (\<lambda>i. (str_nat (i + 1), channels ! i)) [0..<length channels]
   \<and> image_entries (document (snd (write_xml path channels slide cropped))) =
     map (\<lambda>i. (slide @ ''_'' @ channels ! i @ (if cropped then ''_cropped.tif'' else ''.tif''),
                str_nat (i + 1))) [0..<length channels]
   \<and> indentation (snd (write_xml path channels slide cropped)) = ''    ''
   \<and> newline (snd (write_xml path channels slide cropped)) = [CHR 0x0D, CHR 0x0A]
   \<and> channel_entries (document (snd (write_xml path [''DAPI'', ''Alexa488''] ''S1'' False))) =
       [(''1'', ''DAPI''), (''2'', ''Alexa488'')]
   \<and> image_entries (document (snd (write_xml path [''DAPI'', ''Alexa488''] ''S1'' False))) =
       [(''S1_DAPI.tif'', ''1''), (''S1_Alexa488.tif'', ''2'')]"
proof -
  have up: "[0..<2] = [0, Suc 0]" by (simp add: upt_rec)
  show ?thesis
    by (simp add: write_xml_def channel_entries_doc image_entries_doc tif_name_def up
        str_nat_1 str_nat_2 four_spaces)
qed

subsection \<open>The exporter chain\<close>

text \<open>
  C1. The docstring of \<^verbatim>\<open>generate_stitched\<close> promises every export type named in
  \<^verbatim>\<open>filetype\<close>, but the exporters sit in one \<^verbatim>\<open>if\<close>/\<^verbatim>\<open>elif\<close> chain and only the first one that
  matches runs. With the file types \<^verbatim>\<open>".tif"\<close> and \<^verbatim>\<open>"ome.zarr"\<close> the small run returns
  normally, writes the flat TIFF of the channel DAPI and leaves the OME-Zarr path
  untouched, although the same run with \<^verbatim>\<open>"ome.zarr"\<close> alone creates it.
\<close>

theorem tif_and_zarr_requested_only_tif_written:
  "fst (generate_stitched example_ext (example_args\<lparr>filetype := [''.tif'', ''ome.zarr'']\<rparr>)
          empty_world) = Inr None
   \<and> files (snd (generate_stitched example_ext (example_args\<lparr>filetype := [''.tif'', ''ome.zarr'']\<rparr>)
          empty_world)) ''/out/S1_DAPI.tif'' = Some (File (Tiff [[1, 2, 3], [2, 3, 4]]))
   \<and> files (snd (generate_stitched example_ext (example_args\<lparr>filetype := [''.tif'', ''ome.zarr'']\<rparr>)
          empty_world)) ''/out/S1.ome.zarr'' = None
   \<and> files (snd (generate_stitched example_ext (example_args\<lparr>filetype := [''ome.zarr'']\<rparr>)
          empty_world)) ''/out/S1.ome.zarr'' \<noteq> None"
  by code_simp

subsection \<open>The partial rescale mode\<close>

text \<open>
  C2. When \<^verbatim>\<open>do_intensity_rescale\<close> is \<^verbatim>\<open>"partial"\<close> and \<^verbatim>\<open>no_rescale_channel\<close> is \<open>None\<close>, the
  run ends with an exception and the state is the one it started from: no axis flip, no
  alignment, no assembly, no file. The exception is the \<^verbatim>\<open>SystemExit\<close> with the
  configuration message; only when \<^verbatim>\<open>rescale_range\<close> is a dictionary that names a channel
  missing from the channel map has the lookup two statements earlier already raised
  \<^verbatim>\<open>ValueError\<close>.
\<close>

theorem partial_without_exclusion_exits:
  assumes "do_intensity_rescale args = PStr ''partial''" and "no_rescale_channel args = None"
  shows "snd (generate_stitched ext args w) = w
    \<and> (fst (generate_stitched ext args w) = Inl (SystemExit partial_exit_message)
       \<or> (fst (generate_stitched ext args w) = Inl ValueError
          \<and> (\<exists>items. rescale_range args = RangeDict items
                \<and> \<not> set (map fst items) \<subseteq> set (channel_names ext))))"
proof (cases "resolve_rescale_range (channel_names ext) (rescale_range args)")
  case (Inl e)
  then show ?thesis
    using resolve_rescale_range_Inl [OF Inl] by (simp add: generate_stitched_def)
next
  case (Inr rr)
  then show ?thesis
    using assms by (simp add: generate_stitched_def set_no_rescale_def)
qed

theorem partial_without_exclusion_exits_witness:
  "do_intensity_rescale (example_args\<lparr>do_intensity_rescale := PStr ''partial''\<rparr>) = PStr ''partial''
   \<and> no_rescale_channel (example_args\<lparr>do_intensity_rescale := PStr ''partial''\<rparr>) = None
   \<and> generate_stitched example_ext (example_args\<lparr>do_intensity_rescale := PStr ''partial''\<rparr>)
        empty_world = (Inl (SystemExit partial_exit_message), empty_world)"
  using partial_without_exclusion_exits
    [of "example_args\<lparr>do_intensity_rescale := PStr ''partial''\<rparr>" example_ext empty_world]
  by (auto simp: example_args_def prod_eq_iff)

text \<open>
  C3. With \<^verbatim>\<open>"partial"\<close> and the exclusion list \<^verbatim>\<open>["DAPI"]\<close>, a channel of the channel map, the
  small run does not proceed: the lookup calls \<^verbatim>\<open>index\<close> on the \<^verbatim>\<open>dict_values\<close> view, which
  raises \<^verbatim>\<open>AttributeError\<close> before the reader's exclusion list is assigned and before
  anything else is done. The three other lookups of the function convert the view with
  \<^verbatim>\<open>list(...)\<close> first.
\<close>

theorem partial_with_exclusion_list_raises:
  "generate_stitched example_ext
     (example_args\<lparr>do_intensity_rescale := PStr ''partial'', no_rescale_channel := Some [''DAPI'']\<rparr>)
     empty_world = (Inl AttributeError, empty_world)"
  by (simp add: generate_stitched_def example_args_def example_ext_def resolve_rescale_range_def
      set_no_rescale_def dict_values_index_def channel_names_def)

subsection \<open>The channel reorder\<close>

text \<open>
  C9, as stated, fails: with the default \<^verbatim>\<open>plot_QC=True\<close> and the order \<^verbatim>\<open>["DAPI", "GFP"]\<close>,
  where GFP is not in the channel map, the run raises \<^verbatim>\<open>ValueError\<close> only after the axis flip,
  the alignment and the two QC plots for the output directory.
\<close>

theorem unknown_channel_order_after_qc_plots:
  "fst (generate_stitched example_ext (example_args\<lparr>channel_order := Some [''DAPI'', ''GFP'']\<rparr>)
          empty_world) = Inl ValueError
   \<and> calls (snd (generate_stitched example_ext (example_args\<lparr>channel_order := Some [''DAPI'', ''GFP'']\<rparr>)
          empty_world)) =
       [AxisFlip,
        Align \<lparr> slide_rescale_range = RangeTuple (1, 99), slide_do_rescale = PBool True,
                slide_WGAchannel = None, slide_no_rescale_channel = None \<rparr> 0,
        PlotEdgeScatter ''/out'', PlotEdgeQuality ''/out'']"
  by code_simp

text \<open>
  C9, amended. If \<^verbatim>\<open>channel_order\<close> contains a name that is not in the channel map, the run
  ends with an exception and no file has been written: not the position table, no image,
  no sidecar, no container. When the earlier configuration steps pass (the rescale range
  resolves, the partial mode is set up, the stitching channel is found), the exception is
  the \<^verbatim>\<open>ValueError\<close> of the name lookup, raised after the axis flip and the alignment and,
  when \<^verbatim>\<open>plot_QC\<close> is set, after the two QC plots.
\<close>

theorem unknown_channel_order_raises:
  assumes "channel_order args = Some order" and "\<not> set order \<subseteq> set (channel_names ext)"
  shows "isl (fst (generate_stitched ext args w))
    \<and> files (snd (generate_stitched ext args w)) = files w
    \<and> (\<forall>rr slide i.
          resolve_rescale_range (channel_names ext) (rescale_range args) = Inr rr
          \<and> set_no_rescale (channel_names ext) args
               \<lparr> slide_rescale_range = rr, slide_do_rescale = do_intensity_rescale args,
                 slide_WGAchannel = WGAchannel args, slide_no_rescale_channel = None \<rparr> = Inr slide
          \<and> list_index (channel_names ext) (stitching_channel args) = Inr i
          \<longrightarrow> fst (generate_stitched ext args w) = Inl ValueError
            \<and> calls (snd (generate_stitched ext args w)) =
                calls w @ [AxisFlip, Align slide i]
                  @ (if plot_QC args
                     then [PlotEdgeScatter (abspath ext (outdir args)),
                           PlotEdgeQuality (abspath ext (outdir args))]
                     else []))"
proof -
  have sel: "select_channels ext args = Inl ValueError"
    using assms order_ids_Inl [of "channel_names ext" order ValueError]
    by (simp add: select_channels_def)
  show ?thesis
    by (auto simp: generate_stitched_def sel Let_def split: sum.splits)
qed

theorem unknown_channel_order_raises_witness:
  "channel_order (example_args\<lparr>channel_order := Some [''DAPI'', ''GFP'']\<rparr>) = Some [''DAPI'', ''GFP'']
   \<and> \<not> set [''DAPI'', ''GFP''] \<subseteq> set (channel_names example_ext)
   \<and> fst (generate_stitched example_ext (example_args\<lparr>channel_order := Some [''DAPI'', ''GFP'']\<rparr>)
        empty_world) = Inl ValueError
   \<and> files (snd (generate_stitched example_ext
        (example_args\<lparr>channel_order := Some [''DAPI'', ''GFP'']\<rparr>) empty_world)) = Map.empty"
proof -
  have a: "channel_order (example_args\<lparr>channel_order := Some [''DAPI'', ''GFP'']\<rparr>)
             = Some [''DAPI'', ''GFP'']"
    by simp
  have b: "\<not> set [''DAPI'', ''GFP''] \<subseteq> set (channel_names example_ext)"
    by (simp add: channel_names_def example_ext_def)
  have c: "fst (generate_stitched example_ext
             (example_args\<lparr>channel_order := Some [''DAPI'', ''GFP'']\<rparr>) empty_world) = Inl ValueError"
    by code_simp
  show ?thesis
    using unknown_channel_order_raises [OF a b, of empty_world] a b c
    by (simp add: empty_world_def)
qed

subsection \<open>The OME-Zarr exporter\<close>

text \<open>
  C8. Whenever the OME-Zarr exporter finds a directory at its target path, whatever it
  holds, the export returns normally and the directory afterwards holds exactly what this
  export stores into an empty store. So when a first export to a path has returned, a
  second export to the same path (same output directory and slide name, any channel map,
  array and writer) returns normally too, and the directory holds the entries of the
  second export only: nothing of the first one remains.
\<close>

theorem zarr_export_overwrites:
  "(files w (zarr_path out args) = Some (Dir old) \<longrightarrow>
      export_ome_zarr ext out args merged w =
        (Inr (), w\<lparr>files := (files w)(zarr_path out args \<mapsto>
                     Dir (store_put (zarr_items ext args merged) []))\<rparr>))
   \<and> (fst (export_ome_zarr ext1 out args1 merged1 w) = Inr ()
        \<and> slidename args2 = slidename args1 \<longrightarrow>
      export_ome_zarr ext2 out args2 merged2 (snd (export_ome_zarr ext1 out args1 merged1 w)) =
        (Inr (), w\<lparr>files := (files w)(zarr_path out args2 \<mapsto>
                     Dir (store_put (zarr_items ext2 args2 merged2) []))\<rparr>))"
proof (intro conjI impI)
  assume "files w (zarr_path out args) = Some (Dir old)"
  then show "export_ome_zarr ext out args merged w =
        (Inr (), w\<lparr>files := (files w)(zarr_path out args \<mapsto>
                     Dir (store_put (zarr_items ext args merged) []))\<rparr>)"
    by (rule export_ome_zarr_on_dir)
next
  assume h: "fst (export_ome_zarr ext1 out args1 merged1 w) = Inr ()
        \<and> slidename args2 = slidename args1"
  then have p: "zarr_path out args2 = zarr_path out args1"
    by (simp add: zarr_path_def)
  from h have first: "export_ome_zarr ext1 out args1 merged1 w =
     (Inr (), w\<lparr>files := (files w)(zarr_path out args1 \<mapsto>
                  Dir (store_put (zarr_items ext1 args1 merged1) []))\<rparr>)"
    using export_ome_zarr_ok by blast
  show "export_ome_zarr ext2 out args2 merged2 (snd (export_ome_zarr ext1 out args1 merged1 w)) =
        (Inr (), w\<lparr>files := (files w)(zarr_path out args2 \<mapsto>
                     Dir (store_put (zarr_items ext2 args2 merged2) []))\<rparr>)"
    unfolding first snd_conv
    by (subst export_ome_zarr_on_dir [where old = "store_put (zarr_items ext1 args1 merged1) []"])
       (simp_all add: p)
qed

theorem zarr_export_overwrites_witness:
  "fst (export_ome_zarr stale_ext ''/out'' example_args [[[5, 5]]] empty_world) = Inr ()
   \<and> files (snd (export_ome_zarr stale_ext ''/out'' example_args [[[5, 5]]] empty_world))
        (zarr_path ''/out'' example_args) =
      Some (Dir [(''omero'', Omero ''S1.ome.zarr''
                   [(''Alexa488'', ''#e60049'', True), (''DAPI'', ''#0bb4ff'', True)]),
                 (''0/0.0.0'', Chunk [5, 5]), (''0/0.0.1'', Chunk [5])])
   \<and> files (snd (export_ome_zarr example_ext ''/out'' example_args [[[7]]]
                (snd (export_ome_zarr stale_ext ''/out'' example_args [[[5, 5]]] empty_world))))
        ''/out/S1.ome.zarr'' =
      Some (Dir [(''omero'', Omero ''S1.ome.zarr''
                   [(''Alexa488'', ''#e60049'', True), (''DAPI'', ''#0bb4ff'', True)]),
                 (''0/0.0.0'', Chunk [7])])"
proof -
  have p: "zarr_path ''/out'' example_args = ''/out/S1.ome.zarr''"
    by code_simp
  have first: "export_ome_zarr stale_ext ''/out'' example_args [[[5, 5]]] empty_world =
      (Inr (), empty_world\<lparr>files := (files empty_world)(zarr_path ''/out'' example_args \<mapsto>
                  Dir (store_put (zarr_items stale_ext example_args [[[5, 5]]]) []))\<rparr>)"
    by (rule export_ome_zarr_on_none) (simp add: empty_world_def)
  have items1: "store_put (zarr_items stale_ext example_args [[[5, 5]]]) [] =
      [(''omero'', Omero ''S1.ome.zarr''
          [(''Alexa488'', ''#e60049'', True), (''DAPI'', ''#0bb4ff'', True)]),
       (''0/0.0.0'', Chunk [5, 5]), (''0/0.0.1'', Chunk [5])]"
    by code_simp
  have items2: "store_put (zarr_items example_ext example_args [[[7]]]) [] =
      [(''omero'', Omero ''S1.ome.zarr''
          [(''Alexa488'', ''#e60049'', True), (''DAPI'', ''#0bb4ff'', True)]),
       (''0/0.0.0'', Chunk [7])]"
    by code_simp
  have a: "fst (export_ome_zarr stale_ext ''/out'' example_args [[[5, 5]]] empty_world) = Inr ()"
    by (simp add: first)
  from zarr_export_overwrites
    [of empty_world "''/out''" example_args "[]" example_ext "[]" stale_ext example_args
       "[[[5, 5]]]" example_args example_ext "[[[7]]]"] a
  have "export_ome_zarr example_ext ''/out'' example_args [[[7]]]
          (snd (export_ome_zarr stale_ext ''/out'' example_args [[[5, 5]]] empty_world)) =
        (Inr (), empty_world\<lparr>files := (files empty_world)(zarr_path ''/out'' example_args \<mapsto>
                     Dir (store_put (zarr_items example_ext example_args [[[7]]]) []))\<rparr>)"
    by simp
  then show ?thesis
    using a by (simp add: p items1 items2 first)
qed

subsection \<open>Example tiles of the thumbnail\<close>

text \<open>
  C10. When \<^verbatim>\<open>generate_thumbnail\<close> is called with \<^verbatim>\<open>export_examples=True\<close>: if fewer than ten
  entries of the input directory match the reference channel (and the first ten characters
  of the pattern), the call raises \<^verbatim>\<open>ValueError\<close> and no example image has been saved. If
  there are at least ten, the sample has exactly ten files, drawn without replacement from
  the matching ones; and when the reference channel is in the channel map and the
  directory holds the counterpart of every matching file for every channel, the call
  returns normally and has saved, for each channel in turn, the counterparts of exactly
  these ten files into the example directory.
\<close>

theorem examples_sample_ten:
  assumes "thumb_export_examples args"
  shows "(length (reference_files listing args) < 10 \<longrightarrow>
            fst (generate_thumbnail ext listing rnd args w) = Inl ValueError
            \<and> example_saves (calls (snd (generate_thumbnail ext listing rnd args w)))
                = example_saves (calls w))
     \<and> (10 \<le> length (reference_files listing args) \<longrightarrow>
            (\<exists>sampled. random_sample rnd (reference_files listing args) 10 = Inr sampled
               \<and> length sampled = 10
               \<and> mset sampled \<subseteq># mset (reference_files listing args)
               \<and> (thumb_stitching_channel args \<in> set (channel_names ext)
                   \<and> (\<forall>channel \<in> set (channel_names ext). \<forall>f \<in> set (reference_files listing args).
                         py_replace f (thumb_stitching_channel args) channel \<in> set listing)
                   \<longrightarrow> fst (generate_thumbnail ext listing rnd args w) = Inr ()
                     \<and> example_saves (calls (snd (generate_thumbnail ext listing rnd args w)))
                         = example_saves (calls w)
                           @ concat (map (\<lambda>channel.
                               map (\<lambda>f. (os_path_join (thumb_outdir args) ''example_images'',
                                          py_replace f (thumb_stitching_channel args) channel))
                                 sampled)
                               (channel_names ext)))))"
proof (rule conjI; rule impI)
  assume short: "length (reference_files listing args) < 10"
  then have rs: "random_sample rnd (reference_files listing args) 10 = Inl ValueError"
    by (simp add: random_sample_def)
  show "fst (generate_thumbnail ext listing rnd args w) = Inl ValueError
      \<and> example_saves (calls (snd (generate_thumbnail ext listing rnd args w)))
          = example_saves (calls w)"
  proof (cases "list_index (channel_names ext) (thumb_stitching_channel args)")
    case (Inl e)
    then have "e = ValueError" by (simp add: list_index_Inl)
    with Inl show ?thesis
      by (simp add: generate_thumbnail_def)
  next
    case (Inr i)
    then show ?thesis using assms rs
      by (simp add: generate_thumbnail_def Let_def write_file_def)
  qed
next
  let ?ref = "reference_files listing args"
  let ?sc = "thumb_stitching_channel args"
  let ?od = "os_path_join (thumb_outdir args) ''example_images''"
  let ?s = "draw rnd 0 ?ref 10"
  assume long: "10 \<le> length ?ref"
  then have rs: "random_sample rnd ?ref 10 = Inr ?s"
    by (simp add: random_sample_def)
  have len: "length ?s = 10"
    using long by (simp add: length_draw)
  have sub: "mset ?s \<subseteq># mset ?ref"
    by (rule mset_draw)
  have run: "fst (generate_thumbnail ext listing rnd args w) = Inr ()
        \<and> example_saves (calls (snd (generate_thumbnail ext listing rnd args w)))
            = example_saves (calls w)
              @ concat (map (\<lambda>channel. map (\<lambda>f. (?od, py_replace f ?sc channel)) ?s)
                          (channel_names ext))"
    if sc: "?sc \<in> set (channel_names ext)"
      and ex: "\<forall>channel \<in> set (channel_names ext). \<forall>f \<in> set ?ref.
                 py_replace f ?sc channel \<in> set listing"
  proof -
    from sc obtain i where i: "list_index (channel_names ext) ?sc = Inr i"
      using list_index_Inl [of "channel_names ext" ?sc]
      by (cases "list_index (channel_names ext) ?sc") auto
    have "set ?s \<subseteq> set ?ref"
      using sub set_mset_mono by fastforce
    with ex have ex': "\<forall>channel \<in> set (channel_names ext). \<forall>f \<in> set ?s.
                 py_replace f ?sc channel \<in> set listing"
      by blast
    define tname where "tname = thumb_name args @ ''_thumbnail_'' @ ?sc @ ''.tif''"
    define w2 where "w2 = write_file (os_path_join (thumb_outdir args) tname) (Thumbnail i)
                         (emit (ImSave (thumb_outdir args) tname (Thumbnail i))
                            (emit (MakeThumbnail i) (emit AxisFlip w)))"
    define w3 where "w3 = (if files w2 ?od = None then
                             emit (MakeDirs ?od) (w2\<lparr>files := (files w2)(?od \<mapsto> Dir [])\<rparr>)
                           else w2)"
    have saves3: "example_saves (calls w3) = example_saves (calls w)"
      by (simp add: w3_def w2_def write_file_def)
    have "generate_thumbnail ext listing rnd args w
            = export_example_channels listing args ?od (channel_names ext) ?s w3"
      using assms i rs
      by (simp add: generate_thumbnail_def Let_def w3_def w2_def tname_def)
    with export_example_channels_ok [OF ex', of ?od w3] saves3 show ?thesis
      by simp
  qed
  from rs len sub run
  show "\<exists>sampled. random_sample rnd ?ref 10 = Inr sampled
               \<and> length sampled = 10
               \<and> mset sampled \<subseteq># mset ?ref
               \<and> (?sc \<in> set (channel_names ext)
                   \<and> (\<forall>channel \<in> set (channel_names ext). \<forall>f \<in> set ?ref.
                         py_replace f ?sc channel \<in> set listing)
                   \<longrightarrow> fst (generate_thumbnail ext listing rnd args w) = Inr ()
                     \<and> example_saves (calls (snd (generate_thumbnail ext listing rnd args w)))
                         = example_saves (calls w)
                           @ concat (map (\<lambda>channel. map (\<lambda>f. (?od, py_replace f ?sc channel)) sampled)
                               (channel_names ext)))"
    by (intro exI [of _ ?s] conjI impI) blast+
qed


theorem examples_sample_ten_witness:
  "thumb_export_examples example_thumb_args
   \<and> length (reference_files (tile_files ''DAPI'' 2 @ tile_files ''Alexa488'' 2) example_thumb_args) < 10
   \<and> fst (generate_thumbnail example_ext (tile_files ''DAPI'' 2 @ tile_files ''Alexa488'' 2)
        (\<lambda>j. 3 * j) example_thumb_args empty_world) = Inl ValueError
   \<and> example_saves (calls (snd (generate_thumbnail example_ext
        (tile_files ''DAPI'' 2 @ tile_files ''Alexa488'' 2) (\<lambda>j. 3 * j) example_thumb_args
        empty_world))) = []
   \<and> 10 \<le> length (reference_files (tile_files ''DAPI'' 10 @ tile_files ''Alexa488'' 10)
        example_thumb_args)
   \<and> random_sample (\<lambda>j. 3 * j)
        (reference_files (tile_files ''DAPI'' 10 @ tile_files ''Alexa488'' 10) example_thumb_args) 10
       = Inr [''Row01_Well01_DAPI_zstack001_r001_c000.tif'',
            ''Row01_Well01_DAPI_zstack001_r001_c004.tif'',
            ''Row01_Well01_DAPI_zstack001_r001_c008.tif'',
            ''Row01_Well01_DAPI_zstack001_r001_c003.tif'',
            ''Row01_Well01_DAPI_zstack001_r001_c001.tif'',
            ''Row01_Well01_DAPI_zstack001_r001_c002.tif'',
            ''Row01_Well01_DAPI_zstack001_r001_c007.tif'',
            ''Row01_Well01_DAPI_zstack001_r001_c005.tif'',
            ''Row01_Well01_DAPI_zstack001_r001_c006.tif'',
            ''Row01_Well01_DAPI_zstack001_r001_c009.tif'']
   \<and> fst (generate_thumbnail example_ext (tile_files ''DAPI'' 10 @ tile_files ''Alexa488'' 10)
        (\<lambda>j. 3 * j) example_thumb_args empty_world) = Inr ()
   \<and> example_saves (calls (snd (generate_thumbnail example_ext
        (tile_files ''DAPI'' 10 @ tile_files ''Alexa488'' 10) (\<lambda>j. 3 * j) example_thumb_args
        empty_world)))
       = map (Pair ''/out/example_images'')
           [''Row01_Well01_Alexa488_zstack001_r001_c000.tif'',
            ''Row01_Well01_Alexa488_zstack001_r001_c004.tif'',
            ''Row01_Well01_Alexa488_zstack001_r001_c008.tif'',
            ''Row01_Well01_Alexa488_zstack001_r001_c003.tif'',
            ''Row01_Well01_Alexa488_zstack001_r001_c001.tif'',
            ''Row01_Well01_Alexa488_zstack001_r001_c002.tif'',
            ''Row01_Well01_Alexa488_zstack001_r001_c007.tif'',
            ''Row01_Well01_Alexa488_zstack001_r001_c005.tif'',
            ''Row01_Well01_Alexa488_zstack001_r001_c006.tif'',
            ''Row01_Well01_Alexa488_zstack001_r001_c009.tif'',
            ''Row01_Well01_DAPI_zstack001_r001_c000.tif'',
            ''Row01_Well01_DAPI_zstack001_r001_c004.tif'',
            ''Row01_Well01_DAPI_zstack001_r001_c008.tif'',
            ''Row01_Well01_DAPI_zstack001_r001_c003.tif'',
            ''Row01_Well01_DAPI_zstack001_r001_c001.tif'',
            ''Row01_Well01_DAPI_zstack001_r001_c002.tif'',
            ''Row01_Well01_DAPI_zstack001_r001_c007.tif'',
            ''Row01_Well01_DAPI_zstack001_r001_c005.tif'',
            ''Row01_Well01_DAPI_zstack001_r001_c006.tif'',
            ''Row01_Well01_DAPI_zstack001_r001_c009.tif'']"
proof -
  let ?L2 = "tile_files ''DAPI'' 2 @ tile_files ''Alexa488'' 2"
  let ?L10 = "tile_files ''DAPI'' 10 @ tile_files ''Alexa488'' 10"
  let ?rnd = "\<lambda>j::nat. 3 * j"
  let ?S = "[''Row01_Well01_DAPI_zstack001_r001_c000.tif'',
            ''Row01_Well01_DAPI_zstack001_r001_c004.tif'',
            ''Row01_Well01_DAPI_zstack001_r001_c008.tif'',
            ''Row01_Well01_DAPI_zstack001_r001_c003.tif'',
            ''Row01_Well01_DAPI_zstack001_r001_c001.tif'',
            ''Row01_Well01_DAPI_zstack001_r001_c002.tif'',
            ''Row01_Well01_DAPI_zstack001_r001_c007.tif'',
            ''Row01_Well01_DAPI_zstack001_r001_c005.tif'',
            ''Row01_Well01_DAPI_zstack001_r001_c006.tif'',
            ''Row01_Well01_DAPI_zstack001_r001_c009.tif'']"
  have ex: "thumb_export_examples example_thumb_args"
    by (simp add: example_thumb_args_def)
  have short: "length (reference_files ?L2 example_thumb_args) = 2"
    by code_simp
  have long: "length (reference_files ?L10 example_thumb_args) = 10"
    by code_simp
  have start: "example_saves (calls empty_world) = []"
    by (simp add: empty_world_def)
  have rs: "random_sample ?rnd (reference_files ?L10 example_thumb_args) 10 = Inr ?S"
    by code_simp
  have sc: "thumb_stitching_channel example_thumb_args \<in> set (channel_names example_ext)"
    by code_simp
  have present: "\<forall>channel \<in> set (channel_names example_ext).
      \<forall>f \<in> set (reference_files ?L10 example_thumb_args).
        py_replace f (thumb_stitching_channel example_thumb_args) channel \<in> set ?L10"
    by code_simp
  have all: "concat (map (\<lambda>channel.
                 map (\<lambda>f. (os_path_join (thumb_outdir example_thumb_args) ''example_images'',
                            py_replace f (thumb_stitching_channel example_thumb_args) channel)) ?S)
                 (channel_names example_ext))
       = map (Pair ''/out/example_images'')
           [''Row01_Well01_Alexa488_zstack001_r001_c000.tif'',
            ''Row01_Well01_Alexa488_zstack001_r001_c004.tif'',
            ''Row01_Well01_Alexa488_zstack001_r001_c008.tif'',
            ''Row01_Well01_Alexa488_zstack001_r001_c003.tif'',
            ''Row01_Well01_Alexa488_zstack001_r001_c001.tif'',
            ''Row01_Well01_Alexa488_zstack001_r001_c002.tif'',
            ''Row01_Well01_Alexa488_zstack001_r001_c007.tif'',
            ''Row01_Well01_Alexa488_zstack001_r001_c005.tif'',
            ''Row01_Well01_Alexa488_zstack001_r001_c006.tif'',
            ''Row01_Well01_Alexa488_zstack001_r001_c009.tif'',
            ''Row01_Well01_DAPI_zstack001_r001_c000.tif'',
            ''Row01_Well01_DAPI_zstack001_r001_c004.tif'',
            ''Row01_Well01_DAPI_zstack001_r001_c008.tif'',
            ''Row01_Well01_DAPI_zstack001_r001_c003.tif'',
            ''Row01_Well01_DAPI_zstack001_r001_c001.tif'',
            ''Row01_Well01_DAPI_zstack001_r001_c002.tif'',
            ''Row01_Well01_DAPI_zstack001_r001_c007.tif'',
            ''Row01_Well01_DAPI_zstack001_r001_c005.tif'',
            ''Row01_Well01_DAPI_zstack001_r001_c006.tif'',
            ''Row01_Well01_DAPI_zstack001_r001_c009.tif'']"
    by code_simp
  note few = examples_sample_ten [OF ex, of ?L2 example_ext ?rnd empty_world]
  note ten = examples_sample_ten [OF ex, of ?L10 example_ext ?rnd empty_world]
  from few short
  have r2: "fst (generate_thumbnail example_ext ?L2 ?rnd example_thumb_args empty_world) = Inl ValueError"
    and s2: "example_saves (calls (snd (generate_thumbnail example_ext ?L2 ?rnd example_thumb_args
               empty_world))) = []"
    by (simp_all add: start)
  from ten long obtain sampled where
    "random_sample ?rnd (reference_files ?L10 example_thumb_args) 10 = Inr sampled"
    and run: "thumb_stitching_channel example_thumb_args \<in> set (channel_names example_ext)
        \<and> (\<forall>channel \<in> set (channel_names example_ext).
             \<forall>f \<in> set (reference_files ?L10 example_thumb_args).
               py_replace f (thumb_stitching_channel example_thumb_args) channel \<in> set ?L10)
        \<longrightarrow> fst (generate_thumbnail example_ext ?L10 ?rnd example_thumb_args empty_world) = Inr ()
          \<and> example_saves (calls (snd (generate_thumbnail example_ext ?L10 ?rnd example_thumb_args
               empty_world)))
              = example_saves (calls empty_world)
                @ concat (map (\<lambda>channel.
                     map (\<lambda>f. (os_path_join (thumb_outdir example_thumb_args) ''example_images'',
                                py_replace f (thumb_stitching_channel example_thumb_args) channel))
                       sampled)
                     (channel_names example_ext))"
    by auto
  then have "sampled = ?S"
    using rs by simp
  with run sc present
  have r10: "fst (generate_thumbnail example_ext ?L10 ?rnd example_thumb_args empty_world) = Inr ()"
    and s10: "example_saves (calls (snd (generate_thumbnail example_ext ?L10 ?rnd example_thumb_args
               empty_world)))
              = map (Pair ''/out/example_images'')
           [''Row01_Well01_Alexa488_zstack001_r001_c000.tif'',
            ''Row01_Well01_Alexa488_zstack001_r001_c004.tif'',
            ''Row01_Well01_Alexa488_zstack001_r001_c008.tif'',
            ''Row01_Well01_Alexa488_zstack001_r001_c003.tif'',
            ''Row01_Well01_Alexa488_zstack001_r001_c001.tif'',
            ''Row01_Well01_Alexa488_zstack001_r001_c002.tif'',
            ''Row01_Well01_Alexa488_zstack001_r001_c007.tif'',
            ''Row01_Well01_Alexa488_zstack001_r001_c005.tif'',
            ''Row01_Well01_Alexa488_zstack001_r001_c006.tif'',
            ''Row01_Well01_Alexa488_zstack001_r001_c009.tif'',
            ''Row01_Well01_DAPI_zstack001_r001_c000.tif'',
            ''Row01_Well01_DAPI_zstack001_r001_c004.tif'',
            ''Row01_Well01_DAPI_zstack001_r001_c008.tif'',
            ''Row01_Well01_DAPI_zstack001_r001_c003.tif'',
            ''Row01_Well01_DAPI_zstack001_r001_c001.tif'',
            ''Row01_Well01_DAPI_zstack001_r001_c002.tif'',
            ''Row01_Well01_DAPI_zstack001_r001_c007.tif'',
            ''Row01_Well01_DAPI_zstack001_r001_c005.tif'',
            ''Row01_Well01_DAPI_zstack001_r001_c006.tif'',
            ''Row01_Well01_DAPI_zstack001_r001_c009.tif'']"
    unfolding all [symmetric] by (simp_all add: start)
  have lt: "length (reference_files ?L2 example_thumb_args) < 10"
    and ge: "10 \<le> length (reference_files ?L10 example_thumb_args)"
    by (simp_all add: short long)
  show ?thesis
    by (intro conjI) (rule ex lt r2 s2 ge rs r10 s10)+
qed

subsection \<open>Cropping\<close>




subsection \<open>Names of the flat TIFFs\<close>

text \<open>
  C5, as stated, fails: the slide name is part of every file name, so a slide called
  \<^verbatim>\<open>S1_cropped\<close> stitched with all margins zero gives the file names
  \<^verbatim>\<open>S1_cropped_Alexa488.tif\<close> and \<^verbatim>\<open>S1_cropped_DAPI.tif\<close>, which contain the marker although
  nothing was cropped.
\<close>

theorem zero_crop_name_with_marker:
  "crop_sum (crop (example_args\<lparr>slidename := ''S1_cropped''\<rparr>)) = 0
   \<and> map fst (saved_images (calls (snd (generate_stitched example_ext
         (example_args\<lparr>slidename := ''S1_cropped''\<rparr>) empty_world))))
       = [''S1_cropped_Alexa488.tif'', ''S1_cropped_DAPI.tif'']
   \<and> py_in ''_cropped'' ''S1_cropped_Alexa488.tif''
   \<and> py_in ''_cropped'' ''S1_cropped_DAPI.tif''"
  by code_simp

text \<open>
  C5, amended. The images that a run saves are none, or one per channel of the channel
  map, named \<^verbatim>\<open>{slide}_{channel}_cropped.tif\<close> when the crop margins sum to a positive value and
  \<^verbatim>\<open>{slide}_{channel}.tif\<close> otherwise, whatever the names are. Such a name contains \<^verbatim>\<open>_cropped\<close>
  if and only if the margins sum to a positive value, or the slide name contains
  \<^verbatim>\<open>_cropped\<close>, or the channel name contains \<^verbatim>\<open>_cropped\<close> or begins with \<^verbatim>\<open>cropped\<close>; so for
  slide and channel names free of these, if and only if the margins sum to a positive
  value. When the margins sum to zero no crop step runs: the planes saved are, in order,
  the planes that the assembly loop produced for the run's rescale range and channel
  order, unchanged.
\<close>

theorem tif_names_cropped_marker:
  "\<exists>imgs.
      saved_images (calls (snd (generate_stitched ext args w))) = saved_images (calls w) @ imgs
      \<and> (imgs = []
         \<or> map fst imgs = map (\<lambda>c. tif_name (slidename args) c (0 < crop_sum (crop args)))
                            (channel_names ext))
      \<and> (\<forall>c \<in> set (channel_names ext).
            py_in ''_cropped'' (tif_name (slidename args) c (0 < crop_sum (crop args)))
              \<longleftrightarrow> (0 < crop_sum (crop args) \<or> py_in ''_cropped'' (slidename args)
                   \<or> prefix ''cropped'' c \<or> py_in ''_cropped'' c))
      \<and> (crop_sum (crop args) = 0 \<longrightarrow>
           imgs = []
           \<or> (\<exists>rr chans mosaics.
                 resolve_rescale_range (channel_names ext) (rescale_range args) = Inr rr
                 \<and> select_channels ext args = Inr chans
                 \<and> (\<forall>w0. fst (assemble_loop ext (do_intensity_rescale args) rr (enumerate_py chans)
                              (replicate (length (channel_keys ext))
                                 (replicate (fst (mosaic_shape ext))
                                    (replicate (snd (mosaic_shape ext)) 0))) w0) = Inr mosaics)
                 \<and> map snd imgs = map (\<lambda>i. Tiff (mosaics ! i)) [0..<length (channel_names ext)]))"
proof -
  have marker: "\<forall>c \<in> set (channel_names ext).
            py_in ''_cropped'' (tif_name (slidename args) c (0 < crop_sum (crop args)))
              \<longleftrightarrow> (0 < crop_sum (crop args) \<or> py_in ''_cropped'' (slidename args)
                   \<or> prefix ''cropped'' c \<or> py_in ''_cropped'' c)"
    by (simp add: marker_in_tif_name)
  from saved_images_generate_stitched [of ext args w]
  consider "saved_images (calls (snd (generate_stitched ext args w))) = saved_images (calls w)"
    | rr chans merged w1 where
        "resolve_rescale_range (channel_names ext) (rescale_range args) = Inr rr"
        "select_channels ext args = Inr chans"
        "fst (assemble_mosaic ext (abspath ext (outdir args)) args rr chans w1) = Inr merged"
        "saved_images (calls (snd (generate_stitched ext args w)))
            = saved_images (calls w)
              @ map (\<lambda>(i, c). (tif_name (slidename args) c (0 < crop_sum (crop args)),
                               Tiff (merged ! i)))
                  (enumerate_py (channel_names ext))"
    by blast
  then show ?thesis
  proof cases
    case 1
    show ?thesis
      by (rule exI [of _ "[]"]) (use 1 marker in simp)
  next
    case 2
    let ?imgs = "map (\<lambda>(i, c). (tif_name (slidename args) c (0 < crop_sum (crop args)),
                               Tiff (merged ! i)))
                  (enumerate_py (channel_names ext))"
    have names: "map fst ?imgs
        = map (\<lambda>c. tif_name (slidename args) c (0 < crop_sum (crop args))) (channel_names ext)"
      using map_fst_enumerate_py
        [of "\<lambda>c. tif_name (slidename args) c (0 < crop_sum (crop args))" "channel_names ext"]
      by (simp add: comp_def split_def)
    have planes: "map snd ?imgs = map (\<lambda>i. Tiff (merged ! i)) [0..<length (channel_names ext)]"
      using map_snd_enumerate_py [of "\<lambda>i. Tiff (merged ! i)" "channel_names ext"]
      by (simp add: comp_def split_def)
    have loop: "\<forall>w0. fst (assemble_loop ext (do_intensity_rescale args) rr (enumerate_py chans)
                              (replicate (length (channel_keys ext))
                                 (replicate (fst (mosaic_shape ext))
                                    (replicate (snd (mosaic_shape ext)) 0))) w0) = Inr merged"
      if "crop_sum (crop args) = 0"
    proof
      fix w0
      from that have "\<not> 0 < crop_sum (crop args)" by simp
      with assemble_mosaic_parts [of ext "abspath ext (outdir args)" args rr chans w1 w0] 2(3)
      show "fst (assemble_loop ext (do_intensity_rescale args) rr (enumerate_py chans)
                              (replicate (length (channel_keys ext))
                                 (replicate (fst (mosaic_shape ext))
                                    (replicate (snd (mosaic_shape ext)) 0))) w0) = Inr merged"
        by simp
    qed
    have zero: "crop_sum (crop args) = 0 \<longrightarrow>
           ?imgs = []
           \<or> (\<exists>rr chans mosaics.
                 resolve_rescale_range (channel_names ext) (rescale_range args) = Inr rr
                 \<and> select_channels ext args = Inr chans
                 \<and> (\<forall>w0. fst (assemble_loop ext (do_intensity_rescale args) rr (enumerate_py chans)
                              (replicate (length (channel_keys ext))
                                 (replicate (fst (mosaic_shape ext))
                                    (replicate (snd (mosaic_shape ext)) 0))) w0) = Inr mosaics)
                 \<and> map snd ?imgs = map (\<lambda>i. Tiff (mosaics ! i)) [0..<length (channel_names ext)])"
      using 2(1,2) loop planes by blast
    show ?thesis
      by (rule exI [of _ ?imgs]) (use 2(4) names marker zero in blast)
  qed
qed

theorem tif_names_cropped_marker_witness:
  "crop_sum (crop example_args) = 0
   \<and> saved_images (calls (snd (generate_stitched example_ext example_args empty_world)))
       = [(''S1_Alexa488.tif'', Tiff [[0, 1, 2], [1, 2, 3]]),
          (''S1_DAPI.tif'', Tiff [[1, 2, 3], [2, 3, 4]])]
   \<and> (\<forall>w0. fst (assemble_loop example_ext (PBool True) (RangeTuple (1, 99)) (enumerate_py [0, 1])
                 (replicate 2 (replicate 2 (replicate 3 0))) w0)
            = Inr [[[0, 1, 2], [1, 2, 3]], [[1, 2, 3], [2, 3, 4]]])
   \<and> \<not> py_in ''_cropped'' ''S1_Alexa488.tif'' \<and> \<not> py_in ''_cropped'' ''S1_DAPI.tif''
   \<and> 0 < crop_sum (crop crop_args)
   \<and> map fst (saved_images (calls (snd (generate_stitched crop_ext crop_args empty_world))))
       = [''S1_Alexa488_cropped.tif'', ''S1_DAPI_cropped.tif'']
   \<and> py_in ''_cropped'' ''S1_Alexa488_cropped.tif'' \<and> py_in ''_cropped'' ''S1_DAPI_cropped.tif''"
proof -
  have z: "crop_sum (crop example_args) = 0" and p: "0 < crop_sum (crop crop_args)"
    by code_simp+
  have e0: "saved_images (calls empty_world) = []"
    by (simp add: empty_world_def)
  have n1: "saved_images (calls (snd (generate_stitched example_ext example_args empty_world)))
       = [(''S1_Alexa488.tif'', Tiff [[0, 1, 2], [1, 2, 3]]),
          (''S1_DAPI.tif'', Tiff [[1, 2, 3], [2, 3, 4]])]"
    by code_simp
  have n2: "map fst (saved_images (calls (snd (generate_stitched crop_ext crop_args empty_world))))
       = [''S1_Alexa488_cropped.tif'', ''S1_DAPI_cropped.tif'']"
    by code_simp
  have rsv: "resolve_rescale_range (channel_names example_ext) (rescale_range example_args)
       = Inr (RangeTuple (1, 99))"
    by (simp add: resolve_rescale_range_def example_args_def)
  have sel: "select_channels example_ext example_args = Inr [0, 1]"
    by (simp add: select_channels_def example_args_def example_ext_def channel_keys_def)
  have shape: "length (channel_keys example_ext) = 2" "fst (mosaic_shape example_ext) = 2"
      "snd (mosaic_shape example_ext) = 3" "do_intensity_rescale example_args = PBool True"
      "length (channel_names example_ext) = 2"
    by (simp_all add: example_ext_def example_args_def channel_keys_def channel_names_def)
  have names: "channel_names example_ext = [''Alexa488'', ''DAPI'']"
    "channel_names crop_ext = [''Alexa488'', ''DAPI'']"
    by (simp_all add: example_ext_def crop_ext_def channel_names_def)
  have slide: "slidename example_args = ''S1''" "slidename crop_args = ''S1''"
    by (simp_all add: example_args_def crop_args_def)
  have plain: "\<not> py_in ''_cropped'' ''S1''" "\<not> prefix ''cropped'' ''Alexa488''"
    "\<not> py_in ''_cropped'' ''Alexa488''" "\<not> prefix ''cropped'' ''DAPI''"
    "\<not> py_in ''_cropped'' ''DAPI''"
    by code_simp+
  have up: "[0..<2] = [0, Suc 0]" by (simp add: upt_rec)
  from tif_names_cropped_marker [of example_ext example_args empty_world]
  obtain imgs where
    i1: "saved_images (calls (snd (generate_stitched example_ext example_args empty_world)))
           = saved_images (calls empty_world) @ imgs"
    and m1: "\<forall>c \<in> set (channel_names example_ext).
            py_in ''_cropped'' (tif_name (slidename example_args) c (0 < crop_sum (crop example_args)))
              \<longleftrightarrow> (0 < crop_sum (crop example_args) \<or> py_in ''_cropped'' (slidename example_args)
                   \<or> prefix ''cropped'' c \<or> py_in ''_cropped'' c)"
    and k1: "crop_sum (crop example_args) = 0 \<longrightarrow>
           imgs = []
           \<or> (\<exists>rr chans mosaics.
                 resolve_rescale_range (channel_names example_ext) (rescale_range example_args) = Inr rr
                 \<and> select_channels example_ext example_args = Inr chans
                 \<and> (\<forall>w0. fst (assemble_loop example_ext (do_intensity_rescale example_args) rr
                              (enumerate_py chans)
                              (replicate (length (channel_keys example_ext))
                                 (replicate (fst (mosaic_shape example_ext))
                                    (replicate (snd (mosaic_shape example_ext)) 0))) w0) = Inr mosaics)
                 \<and> map snd imgs
                     = map (\<lambda>i. Tiff (mosaics ! i)) [0..<length (channel_names example_ext)])"
    by blast
  from i1 have imgs: "imgs = [(''S1_Alexa488.tif'', Tiff [[0, 1, 2], [1, 2, 3]]),
          (''S1_DAPI.tif'', Tiff [[1, 2, 3], [2, 3, 4]])]"
    by (simp add: n1 e0)
  from k1 z imgs obtain mosaics where
    l1: "\<forall>w0. fst (assemble_loop example_ext (PBool True) (RangeTuple (1, 99)) (enumerate_py [0, 1])
                 (replicate 2 (replicate 2 (replicate 3 0))) w0) = Inr mosaics"
    and pl: "map snd imgs = map (\<lambda>i. Tiff (mosaics ! i)) [0..<2]"
    by (auto simp: rsv sel shape)
  have "length mosaics = 2"
    using l1 [rule_format, of empty_world]
      assemble_loop_shape [of example_ext "PBool True" "RangeTuple (1, 99)" "enumerate_py [0, 1]"
        "replicate 2 (replicate 2 (replicate 3 0))" empty_world mosaics]
    by (metis length_replicate prod.collapse in_set_replicate map_replicate shape(2,3))
  with pl imgs have "mosaics = [[[0, 1, 2], [1, 2, 3]], [[1, 2, 3], [2, 3, 4]]]"
    by (auto simp: up length_Suc_conv numeral_2_eq_2)
  with l1 have loop: "\<forall>w0. fst (assemble_loop example_ext (PBool True) (RangeTuple (1, 99))
                 (enumerate_py [0, 1]) (replicate 2 (replicate 2 (replicate 3 0))) w0)
            = Inr [[[0, 1, 2], [1, 2, 3]], [[1, 2, 3], [2, 3, 4]]]"
    by simp
  from m1 z have r1: "\<not> py_in ''_cropped'' ''S1_Alexa488.tif''" "\<not> py_in ''_cropped'' ''S1_DAPI.tif''"
    using plain by (simp_all add: names slide tif_name_def)
  from tif_names_cropped_marker [of crop_ext crop_args empty_world]
  have "\<forall>c \<in> set (channel_names crop_ext).
            py_in ''_cropped'' (tif_name (slidename crop_args) c (0 < crop_sum (crop crop_args)))
              \<longleftrightarrow> (0 < crop_sum (crop crop_args) \<or> py_in ''_cropped'' (slidename crop_args)
                   \<or> prefix ''cropped'' c \<or> py_in ''_cropped'' c)"
    by blast
  with p have r2: "py_in ''_cropped'' ''S1_Alexa488_cropped.tif''"
      "py_in ''_cropped'' ''S1_DAPI_cropped.tif''"
    by (simp_all add: names slide tif_name_def)
  show ?thesis
    by (intro conjI) (rule z n1 loop r1 p n2 r2)+
qed

subsection \<open>Batch jobs\<close>

text \<open>
  C7, as stated, fails: the timepoints are read from the directory of the first well
  only. In a project directory with the wells \<^verbatim>\<open>Row01_Well01\<close> and \<^verbatim>\<open>Row01_Well02\<close>, where the
  first holds tiles of \<^verbatim>\<open>Timepoint001\<close> and the second tiles of \<^verbatim>\<open>Timepoint001\<close> and
  \<^verbatim>\<open>Timepoint002\<close>, there are two distinct wells and two distinct timepoints, but the
  parameter table gets two rows, not four.
\<close>

theorem uneven_timepoints_fewer_rows:
  "uneven_listdir ''/proj/well_sorted'' = Inr [''Row01_Well01'', ''Row01_Well02'']
   \<and> search_all ''^Timepoint...''
        [''Timepoint001_Row01_Well01_DAPI_zstack001_r001_c001.tif'',
         ''Timepoint001_Row01_Well02_DAPI_zstack001_r001_c001.tif'',
         ''Timepoint002_Row01_Well02_DAPI_zstack001_r001_c001.tif'']
       = Inr [''Timepoint001'', ''Timepoint001'', ''Timepoint002'']
   \<and> fst (prepare_stitch_slurm_job uneven_listdir example_slurm_args empty_world) = Inr ()
   \<and> files (snd (prepare_stitch_slurm_job uneven_listdir example_slurm_args empty_world))
        ''/proj/slurm_jobs/stitch_all/array_inputs.csv''
       = Some (File (ParamTable
           [(0, ''Timepoint001_Row01_Well01_{channel}_zstack001_r{row:03}_c{col:03}.tif'',
             ''Timepoint001_Row01_Well01'', ''/proj/well_sorted/Row01_Well01''),
            (1, ''Timepoint001_Row01_Well02_{channel}_zstack001_r{row:03}_c{col:03}.tif'',
             ''Timepoint001_Row01_Well02'', ''/proj/well_sorted/Row01_Well02'')]))"
  by code_simp

text \<open>
  C7, amended. Let every entry of the input directory other than \<^verbatim>\<open>.DS_Store\<close> carry a well
  identifier, with \<open>N \<ge> 1\<close> distinct wells among them; let every \<^verbatim>\<open>.tif\<close> file in the
  directory of the first well in sorted order start with a timepoint identifier, with
  \<open>M \<ge> 1\<close> distinct timepoints among them; let \<^verbatim>\<open>jobs_per_file\<close> be positive and none of
  the three directories to create be a regular file. Then \<^verbatim>\<open>prepare_stitch_slurm_job\<close>
  returns normally; the parameter table has exactly \<open>N * M\<close> rows, numbered from 0, one
  for every timepoint and every well in sorted order; and the submission script contains
  the line \<^verbatim>\<open>#SBATCH --array=1-n%20\<close> where \<open>n\<close> is \<open>N * M / jobs_per_file\<close> rounded up.
  The division is taken exactly; the row counts are far below the range where the
  floating-point quotient could round differently.
\<close>

theorem slurm_job_table_and_array:
  assumes "\<forall>d \<in> set (slurm_dirs args). \<forall>c. files w d \<noteq> Some (File c)"
    and "listdir (slurm_input args) = Inr files0"
    and "search_all ''Row.._Well..'' (filter (\<lambda>x. x \<noteq> ''.DS_Store'') files0) = Inr ws"
    and "ws \<noteq> []"
    and "listdir (os_path_join (slurm_input args) (hd (np_unique ws))) = Inr files1"
    and "search_all ''^Timepoint...'' (filter (suffix ''.tif'') files1) = Inr ts"
    and "ts \<noteq> []"
    and "0 < jobs_per_file args"
  shows "fst (prepare_stitch_slurm_job listdir args w) = Inr ()
    \<and> (\<exists>rows. files (snd (prepare_stitch_slurm_job listdir args w))
                (slurm_outdir args @ ''/array_inputs.csv'') = Some (File (ParamTable rows))
          \<and> length rows = card (set ws) * card (set ts)
          \<and> map (\<lambda>(i, p, s, d). i) rows = [0..<card (set ws) * card (set ts)]
          \<and> map (\<lambda>(i, p, s, d). s) rows
              = concat (map (\<lambda>t. map (\<lambda>w. t @ ''_'' @ w) (np_unique ws)) (np_unique ts)))
    \<and> files (snd (prepare_stitch_slurm_job listdir args w)) (slurm_outdir args @ ''/run.sh'')
        = Some (File (Script (run_sh args (slurm_outdir args)
            \<lceil>real (card (set ws) * card (set ts)) / real_of_int (jobs_per_file args)\<rceil>)))
    \<and> sublist (''#SBATCH --array=1-''
                @ str_int \<lceil>real (card (set ws) * card (set ts)) / real_of_int (jobs_per_file args)\<rceil>
                @ ''%20 '' @ nl @ nl)
         (run_sh args (slurm_outdir args)
            \<lceil>real (card (set ws) * card (set ts)) / real_of_int (jobs_per_file args)\<rceil>)"
proof -
  let ?d1 = "slurm_outdir args"
  let ?d2 = "os_path_join (slurm_path args) ''stitched_wells''"
  let ?d3 = "os_path_join (slurm_outdir args) ''logs''"
  let ?n = "\<lceil>real (card (set ws) * card (set ts)) / real_of_int (jobs_per_file args)\<rceil>"
  from assms(1) have f1: "\<forall>c. files w ?d1 \<noteq> Some (File c)"
    and f2: "\<forall>c. files w ?d2 \<noteq> Some (File c)"
    and f3: "\<forall>c. files w ?d3 \<noteq> Some (File c)"
    by (simp_all add: slurm_dirs_def)
  obtain w1 where e1: "ensure_dir ?d1 w = (Inr (), w1)"
    using ensure_dir_ok [OF f1] by (cases "ensure_dir ?d1 w") auto
  have g2: "\<forall>c. files w1 ?d2 \<noteq> Some (File c)" and g3: "\<forall>c. files w1 ?d3 \<noteq> Some (File c)"
    using ensure_dir_keeps [OF f2, of ?d1] ensure_dir_keeps [OF f3, of ?d1] e1 by simp_all
  obtain w2 where e2: "ensure_dir ?d2 w1 = (Inr (), w2)"
    using ensure_dir_ok [OF g2] by (cases "ensure_dir ?d2 w1") auto
  have h3: "\<forall>c. files w2 ?d3 \<noteq> Some (File c)"
    using ensure_dir_keeps [OF g3, of ?d2] e2 by simp
  obtain w3 where e3: "ensure_dir ?d3 w2 = (Inr (), w3)"
    using ensure_dir_ok [OF h3] by (cases "ensure_dir ?d3 w2") auto
  let ?w4 = "write_file (?d1 @ ''/processing.py'') (Script (processing_py args ?d2)) w3"
  have run: "prepare_stitch_slurm_job listdir args w
               = write_jobs listdir args ?d1 (slurm_input args) ?w4"
    by (simp add: prepare_stitch_slurm_job_def Let_def e1 e2 e3
        slurm_outdir_def [symmetric] slurm_input_def [symmetric])
  from assms(8) have j: "jobs_per_file args \<noteq> 0" by simp
  from write_jobs_ok [OF assms(2-7) j, of ?d1 ?w4]
  obtain rows where len: "length rows = card (set ws) * card (set ts)"
    and idx: "map (\<lambda>(i, p, s, d). i) rows = [0..<card (set ws) * card (set ts)]"
    and nm: "map (\<lambda>(i, p, s, d). s) rows
              = concat (map (\<lambda>t. map (\<lambda>w. t @ ''_'' @ w) (np_unique ws)) (np_unique ts))"
    and wj: "write_jobs listdir args ?d1 (slurm_input args) ?w4 =
        (Inr (),
         write_file (?d1 @ ''/run.sh'') (Script (run_sh args ?d1 ?n))
           (write_file (?d1 @ ''/array_inputs.csv'') (ParamTable rows) ?w4))"
    by blast
  have csv: "files (snd (prepare_stitch_slurm_job listdir args w)) (?d1 @ ''/array_inputs.csv'')
               = Some (File (ParamTable rows))"
    by (simp add: run wj files_write_file)
  have sh: "files (snd (prepare_stitch_slurm_job listdir args w)) (?d1 @ ''/run.sh'')
               = Some (File (Script (run_sh args ?d1 ?n)))"
    by (simp add: run wj files_write_file)
  have "fst (prepare_stitch_slurm_job listdir args w) = Inr ()"
    by (simp add: run wj)
  with csv sh len idx nm array_line_in_run_sh [of ?n args ?d1] show ?thesis
    by blast
qed

theorem slurm_job_table_and_array_witness:
  "example_listdir (slurm_input example_slurm_args)
     = Inr [''Row01_Well02'', ''.DS_Store'', ''Row01_Well01'']
   \<and> search_all ''Row.._Well..''
        (filter (\<lambda>x. x \<noteq> ''.DS_Store'') [''Row01_Well02'', ''.DS_Store'', ''Row01_Well01''])
     = Inr [''Row01_Well02'', ''Row01_Well01'']
   \<and> example_listdir (os_path_join (slurm_input example_slurm_args)
        (hd (np_unique [''Row01_Well02'', ''Row01_Well01''])))
     = Inr [''Timepoint001_Row01_Well01_DAPI_zstack001_r001_c001.tif'',
            ''Timepoint002_Row01_Well01_DAPI_zstack001_r001_c001.tif'',
            ''Timepoint001_Row01_Well01_DAPI_zstack001_r001_c002.tif'',
            ''notes.txt'']
   \<and> search_all ''^Timepoint...''
        (filter (suffix ''.tif'')
           [''Timepoint001_Row01_Well01_DAPI_zstack001_r001_c001.tif'',
            ''Timepoint002_Row01_Well01_DAPI_zstack001_r001_c001.tif'',
            ''Timepoint001_Row01_Well01_DAPI_zstack001_r001_c002.tif'',
            ''notes.txt''])
     = Inr [''Timepoint001'', ''Timepoint002'', ''Timepoint001'']
   \<and> 0 < jobs_per_file example_slurm_args
   \<and> card (set [''Row01_Well02'', ''Row01_Well01''])
       * card (set [''Timepoint001'', ''Timepoint002'', ''Timepoint001'']) = 4
   \<and> fst (prepare_stitch_slurm_job example_listdir example_slurm_args empty_world) = Inr ()
   \<and> (\<exists>rows. files (snd (prepare_stitch_slurm_job example_listdir example_slurm_args empty_world))
                (slurm_outdir example_slurm_args @ ''/array_inputs.csv'')
                 = Some (File (ParamTable rows))
          \<and> length rows = 4
          \<and> map (\<lambda>(i, p, s, d). s) rows
              = [''Timepoint001_Row01_Well01'', ''Timepoint001_Row01_Well02'',
                 ''Timepoint002_Row01_Well01'', ''Timepoint002_Row01_Well02''])
   \<and> files (snd (prepare_stitch_slurm_job example_listdir example_slurm_args empty_world))
        (slurm_outdir example_slurm_args @ ''/run.sh'')
       = Some (File (Script (run_sh example_slurm_args (slurm_outdir example_slurm_args) 1)))"
proof -
  have dirs: "\<forall>d \<in> set (slurm_dirs example_slurm_args). \<forall>c. files empty_world d \<noteq> Some (File c)"
    by (simp add: empty_world_def)
  have l0: "example_listdir (slurm_input example_slurm_args)
     = Inr [''Row01_Well02'', ''.DS_Store'', ''Row01_Well01'']"
    by code_simp
  have s0: "search_all ''Row.._Well..''
        (filter (\<lambda>x. x \<noteq> ''.DS_Store'') [''Row01_Well02'', ''.DS_Store'', ''Row01_Well01''])
     = Inr [''Row01_Well02'', ''Row01_Well01'']"
    by code_simp
  have ne0: "[''Row01_Well02'', ''Row01_Well01''] \<noteq> []"
    by simp
  have l1: "example_listdir (os_path_join (slurm_input example_slurm_args)
        (hd (np_unique [''Row01_Well02'', ''Row01_Well01''])))
     = Inr [''Timepoint001_Row01_Well01_DAPI_zstack001_r001_c001.tif'',
            ''Timepoint002_Row01_Well01_DAPI_zstack001_r001_c001.tif'',
            ''Timepoint001_Row01_Well01_DAPI_zstack001_r001_c002.tif'',
            ''notes.txt'']"
    by code_simp
  have s1: "search_all ''^Timepoint...''
        (filter (suffix ''.tif'')
           [''Timepoint001_Row01_Well01_DAPI_zstack001_r001_c001.tif'',
            ''Timepoint002_Row01_Well01_DAPI_zstack001_r001_c001.tif'',
            ''Timepoint001_Row01_Well01_DAPI_zstack001_r001_c002.tif'',
            ''notes.txt''])
     = Inr [''Timepoint001'', ''Timepoint002'', ''Timepoint001'']"
    by code_simp
  have ne1: "[''Timepoint001'', ''Timepoint002'', ''Timepoint001''] \<noteq> []"
    by simp
  have j: "0 < jobs_per_file example_slurm_args"
    by (simp add: example_slurm_args_def)
  have c: "card (set [''Row01_Well02'', ''Row01_Well01''])
       * card (set [''Timepoint001'', ''Timepoint002'', ''Timepoint001'']) = 4"
    by code_simp
  have n: "\<lceil>real 4 / real_of_int (jobs_per_file example_slurm_args)\<rceil> = 1"
  proof -
    have "\<lceil>real_of_int 4 / real_of_int 24\<rceil> = - (- 4 div (24::int))"
      by (rule ceiling_divide_eq_div)
    then show ?thesis by (simp add: example_slurm_args_def)
  qed
  have u: "concat (map (\<lambda>t. map (\<lambda>w. t @ ''_'' @ w) (np_unique [''Row01_Well02'', ''Row01_Well01'']))
              (np_unique [''Timepoint001'', ''Timepoint002'', ''Timepoint001'']))
          = [''Timepoint001_Row01_Well01'', ''Timepoint001_Row01_Well02'',
             ''Timepoint002_Row01_Well01'', ''Timepoint002_Row01_Well02'']"
    by code_simp
  note run = slurm_job_table_and_array [OF dirs l0 s0 ne0 l1 s1 ne1 j, unfolded c n u]
  from run have r: "fst (prepare_stitch_slurm_job example_listdir example_slurm_args empty_world)
      = Inr ()"
    by (rule conjunct1)
  from run obtain rows where
    t: "files (snd (prepare_stitch_slurm_job example_listdir example_slurm_args empty_world))
                (slurm_outdir example_slurm_args @ ''/array_inputs.csv'')
                 = Some (File (ParamTable rows))"
    and len: "length rows = 4"
    and nm: "map (\<lambda>(i, p, s, d). s) rows
              = [''Timepoint001_Row01_Well01'', ''Timepoint001_Row01_Well02'',
                 ''Timepoint002_Row01_Well01'', ''Timepoint002_Row01_Well02'']"
    by (elim conjE exE)
  from run have sh: "files (snd (prepare_stitch_slurm_job example_listdir example_slurm_args
        empty_world)) (slurm_outdir example_slurm_args @ ''/run.sh'')
       = Some (File (Script (run_sh example_slurm_args (slurm_outdir example_slurm_args) 1)))"
    by (elim conjE)
  have ex: "\<exists>rows. files (snd (prepare_stitch_slurm_job example_listdir example_slurm_args
                  empty_world)) (slurm_outdir example_slurm_args @ ''/array_inputs.csv'')
                 = Some (File (ParamTable rows))
          \<and> length rows = 4
          \<and> map (\<lambda>(i, p, s, d). s) rows
              = [''Timepoint001_Row01_Well01'', ''Timepoint001_Row01_Well02'',
                 ''Timepoint002_Row01_Well01'', ''Timepoint002_Row01_Well02'']"
    using t len nm by (intro exI conjI)
  show ?thesis
    by (intro conjI) (rule l0 s0 l1 s1 j c r ex sh)+
qed

end
